theory Spec2Isabelle
  imports Complex_Main "HOL-Library.Sublist"
begin

section \<open>GitHub activity feed: the route handler and the page component\<close>

text \<open>
  The development follows \<^verbatim>\<open>src/app/api/github-feed/route.ts\<close>: the server handler
  \<^verbatim>\<open>GET\<close> with \<^verbatim>\<open>normalizeEvent\<close>, and the client component \<^verbatim>\<open>Page\<close> with its local
  capture list, the unified view, export and import.

  JavaScript strings are modelled as \<^typ>\<open>string\<close>; the non-ASCII literals of the source
  are written as their UTF-8 bytes. The source only concatenates them and replaces ASCII
  substrings, which acts on UTF-8 bytes as it does on UTF-16 code units.

  A property that may be \<^verbatim>\<open>undefined\<close> is an \<^typ>\<open>'a option\<close>. The functions of the
  platform that the source calls but does not contain (\<^verbatim>\<open>Number\<close> on a string, the time
  value of \<^verbatim>\<open>new Date(s)\<close>, \<^verbatim>\<open>trim\<close>, \<^verbatim>\<open>JSON.stringify\<close> and \<^verbatim>\<open>JSON.parse\<close>, and the
  outcomes of \<^verbatim>\<open>fetch\<close>) are parameters of the definitions below.
\<close>

subsection \<open>JavaScript values used by the source\<close>

text \<open>
  A number is a finite value, an infinity or \<^verbatim>\<open>NaN\<close>. Every finite double is a
  rational; the two zeros are identified, which neither truthiness nor comparison tells apart.
\<close>

datatype js_number = Fin rat | NaN | PosInf | NegInf

fun truthy_number :: "js_number \<Rightarrow> bool" where
  "truthy_number (Fin r) = (r \<noteq> 0)"
| "truthy_number NaN = False"
| "truthy_number PosInf = True"
| "truthy_number NegInf = True"

text \<open>\<^verbatim>\<open>s || d\<close> on a possibly undefined string: undefined and the empty string are falsy.\<close>

fun truthy_str :: "string option \<Rightarrow> bool" where
  "truthy_str None = False"
| "truthy_str (Some s) = (s \<noteq> [])"

definition or_str :: "string option \<Rightarrow> string \<Rightarrow> string" where
  "or_str x d = (case x of None \<Rightarrow> d | Some s \<Rightarrow> if s = [] then d else s)"

definition or_opt :: "string option \<Rightarrow> string option \<Rightarrow> string option" where
  "or_opt x y = (if truthy_str x then x else y)"

text \<open>A template literal renders an undefined value as the text \<^verbatim>\<open>undefined\<close>.\<close>

definition tpl :: "string option \<Rightarrow> string" where
  "tpl x = (case x of None \<Rightarrow> ''undefined'' | Some s \<Rightarrow> s)"

text \<open>Decimal rendering of an integer, as a template literal renders an integral number.\<close>

definition digit_char :: "nat \<Rightarrow> char" where
  "digit_char d = ''0123456789'' ! (d mod 10)"

fun string_of_nat :: "nat \<Rightarrow> string" where
  "string_of_nat n =
     (if n < 10 then [digit_char n]
      else string_of_nat (n div 10) @ [digit_char (n mod 10)])"

declare string_of_nat.simps [simp del]

definition string_of_int :: "int \<Rightarrow> string" where
  "string_of_int i = (if i < 0 then CHR ''-'' # string_of_nat (nat (- i)) else string_of_nat (nat i))"

definition tpl_int :: "int option \<Rightarrow> string" where
  "tpl_int x = (case x of None \<Rightarrow> ''undefined'' | Some i \<Rightarrow> string_of_int i)"

text \<open>\<^verbatim>\<open>s.replace(pat, rep)\<close> with a string pattern replaces the first occurrence only.\<close>

fun replace_first :: "string \<Rightarrow> string \<Rightarrow> string \<Rightarrow> string" where
  "replace_first pat rep [] = (if pat = [] then rep else [])"
| "replace_first pat rep (c # cs) =
     (if prefix pat (c # cs) then rep @ drop (length pat) (c # cs)
      else c # replace_first pat rep cs)"

subsection \<open>Display texts of \<^verbatim>\<open>normalizeEvent\<close>\<close>

definition txt_ga :: string where
  \<comment> \<open>the code points SP U+304C SP, in UTF-8\<close>
  "txt_ga =
   [CHR 0x20, CHR 0xE3, CHR 0x81, CHR 0x8C, CHR 0x20]"

definition txt_ni :: string where
  \<comment> \<open>the code points SP U+306B SP, in UTF-8\<close>
  "txt_ni =
   [CHR 0x20, CHR 0xE3, CHR 0x81, CHR 0xAB, CHR 0x20]"

definition txt_ken_push :: string where
  \<comment> \<open>the code points SP U+4EF6 U+30D7 U+30C3 U+30B7 U+30E5, in UTF-8\<close>
  "txt_ken_push =
   [CHR 0x20, CHR 0xE4, CHR 0xBB, CHR 0xB6, CHR 0xE3, CHR 0x83, CHR 0x97, CHR 0xE3,
    CHR 0x83, CHR 0x83, CHR 0xE3, CHR 0x82, CHR 0xB7, CHR 0xE3, CHR 0x83, CHR 0xA5]"

definition txt_pr_wo :: string where
  \<comment> \<open>the code points SP U+304C SP P R SP U+3092 SP, in UTF-8\<close>
  "txt_pr_wo =
   [CHR 0x20, CHR 0xE3, CHR 0x81, CHR 0x8C, CHR 0x20, CHR 0x50, CHR 0x52, CHR 0x20,
    CHR 0xE3, CHR 0x82, CHR 0x92, CHR 0x20]"

definition txt_issue_wo :: string where
  \<comment> \<open>the code points SP U+304C SP I s s u e SP U+3092 SP, in UTF-8\<close>
  "txt_issue_wo =
   [CHR 0x20, CHR 0xE3, CHR 0x81, CHR 0x8C, CHR 0x20, CHR 0x49, CHR 0x73, CHR 0x73,
    CHR 0x75, CHR 0x65, CHR 0x20, CHR 0xE3, CHR 0x82, CHR 0x92, CHR 0x20]"

definition txt_issue_comment :: string where
  \<comment> \<open>the code points SP U+304C SP I s s u e SP U+306B U+30B3 U+30E1 U+30F3 U+30C8 SP (, in UTF-8\<close>
  "txt_issue_comment =
   [CHR 0x20, CHR 0xE3, CHR 0x81, CHR 0x8C, CHR 0x20, CHR 0x49, CHR 0x73, CHR 0x73,
    CHR 0x75, CHR 0x65, CHR 0x20, CHR 0xE3, CHR 0x81, CHR 0xAB, CHR 0xE3, CHR 0x82,
    CHR 0xB3, CHR 0xE3, CHR 0x83, CHR 0xA1, CHR 0xE3, CHR 0x83, CHR 0xB3, CHR 0xE3,
    CHR 0x83, CHR 0x88, CHR 0x20, CHR 0x28]"

definition txt_star :: string where
  \<comment> \<open>the code points SP U+304C SP S t a r SP U+3092 U+4ED8 U+3051 U+307E U+3057 U+305F, in UTF-8\<close>
  "txt_star =
   [CHR 0x20, CHR 0xE3, CHR 0x81, CHR 0x8C, CHR 0x20, CHR 0x53, CHR 0x74, CHR 0x61,
    CHR 0x72, CHR 0x20, CHR 0xE3, CHR 0x82, CHR 0x92, CHR 0xE4, CHR 0xBB, CHR 0x98,
    CHR 0xE3, CHR 0x81, CHR 0x91, CHR 0xE3, CHR 0x81, CHR 0xBE, CHR 0xE3, CHR 0x81,
    CHR 0x97, CHR 0xE3, CHR 0x81, CHR 0x9F]"

definition txt_fork :: string where
  \<comment> \<open>the code points SP U+304C U+30D5 U+30A9 U+30FC U+30AF U+3057 U+307E U+3057 U+305F, in UTF-8\<close>
  "txt_fork =
   [CHR 0x20, CHR 0xE3, CHR 0x81, CHR 0x8C, CHR 0xE3, CHR 0x83, CHR 0x95, CHR 0xE3,
    CHR 0x82, CHR 0xA9, CHR 0xE3, CHR 0x83, CHR 0xBC, CHR 0xE3, CHR 0x82, CHR 0xAF,
    CHR 0xE3, CHR 0x81, CHR 0x97, CHR 0xE3, CHR 0x81, CHR 0xBE, CHR 0xE3, CHR 0x81,
    CHR 0x97, CHR 0xE3, CHR 0x81, CHR 0x9F]"

definition txt_created :: string where
  \<comment> \<open>the code points SP U+3092 U+4F5C U+6210, in UTF-8\<close>
  "txt_created =
   [CHR 0x20, CHR 0xE3, CHR 0x82, CHR 0x92, CHR 0xE4, CHR 0xBD, CHR 0x9C, CHR 0xE6,
    CHR 0x88, CHR 0x90]"

definition txt_release :: string where
  \<comment> \<open>the code points SP U+304C U+30EA U+30EA U+30FC U+30B9 U+3092 U+516C U+958B : SP, in UTF-8\<close>
  "txt_release =
   [CHR 0x20, CHR 0xE3, CHR 0x81, CHR 0x8C, CHR 0xE3, CHR 0x83, CHR 0xAA, CHR 0xE3,
    CHR 0x83, CHR 0xAA, CHR 0xE3, CHR 0x83, CHR 0xBC, CHR 0xE3, CHR 0x82, CHR 0xB9,
    CHR 0xE3, CHR 0x82, CHR 0x92, CHR 0xE5, CHR 0x85, CHR 0xAC, CHR 0xE9, CHR 0x96,
    CHR 0x8B, CHR 0x3A, CHR 0x20]"

definition txt_public :: string where
  \<comment> \<open>the code points SP U+304C U+30EA U+30DD U+30B8 U+30C8 U+30EA U+3092 U+516C U+958B U+3057 U+307E U+3057 U+305F, in UTF-8\<close>
  "txt_public =
   [CHR 0x20, CHR 0xE3, CHR 0x81, CHR 0x8C, CHR 0xE3, CHR 0x83, CHR 0xAA, CHR 0xE3,
    CHR 0x83, CHR 0x9D, CHR 0xE3, CHR 0x82, CHR 0xB8, CHR 0xE3, CHR 0x83, CHR 0x88,
    CHR 0xE3, CHR 0x83, CHR 0xAA, CHR 0xE3, CHR 0x82, CHR 0x92, CHR 0xE5, CHR 0x85,
    CHR 0xAC, CHR 0xE9, CHR 0x96, CHR 0x8B, CHR 0xE3, CHR 0x81, CHR 0x97, CHR 0xE3,
    CHR 0x81, CHR 0xBE, CHR 0xE3, CHR 0x81, CHR 0x97, CHR 0xE3, CHR 0x81, CHR 0x9F]"

definition txt_did :: string where
  \<comment> \<open>the code points SP U+3092 U+5B9F U+884C, in UTF-8\<close>
  "txt_did =
   [CHR 0x20, CHR 0xE3, CHR 0x82, CHR 0x92, CHR 0xE5, CHR 0xAE, CHR 0x9F, CHR 0xE8,
    CHR 0xA1, CHR 0x8C]"

subsection \<open>Remote events and normalized events\<close>

text \<open>
  A remote event as the GitHub API delivers it, with the fields the source reads. The
  source reads \<^verbatim>\<open>actor\<close>, \<^verbatim>\<open>repo\<close> and \<^verbatim>\<open>payload\<close> and the fields below them
  defensively (\<^verbatim>\<open>?.\<close>, \<^verbatim>\<open>||\<close>), so they are optional here.
\<close>

record raw_actor =
  ra_login :: "string option"
  ra_avatar_url :: "string option"
  ra_url :: "string option"

record raw_repo =
  rr_name :: string

record raw_commit =
  rc_message :: string

record raw_item =
  ri_number :: "int option"
  ri_title :: "string option"
  ri_html_url :: "string option"

record raw_forkee =
  rf_html_url :: "string option"

record raw_release =
  rl_tag_name :: "string option"
  rl_html_url :: "string option"

record raw_payload =
  p_commits :: "raw_commit list option"
  p_ref :: "string option"
  p_action :: "string option"
  p_pull_request :: "raw_item option"
  p_issue :: "raw_item option"
  p_forkee :: "raw_forkee option"
  p_ref_type :: "string option"
  p_release :: "raw_release option"

record raw_event =
  e_id :: string
  e_type :: string
  e_actor :: "raw_actor option"
  e_repo :: "raw_repo option"
  e_created_at :: string
  e_payload :: "raw_payload option"

record norm_actor =
  na_login :: string
  na_avatar_url :: "string option"
  na_url :: "string option"

record norm_repo =
  nr_name :: string
  nr_url :: string

record normalized_event =
  n_id :: string
  n_type :: string
  n_actionText :: string
  n_url :: "string option"
  n_repo :: "norm_repo option"
  n_actor :: norm_actor
  n_created_at :: string
  n_icon :: string
  n_details :: "string list option"

text \<open>Optional chaining: \<^verbatim>\<open>x?.f\<close> is undefined when \<^verbatim>\<open>x\<close> is.\<close>

definition chain :: "'a option \<Rightarrow> ('a \<Rightarrow> 'b option) \<Rightarrow> 'b option" where
  "chain x f = (case x of None \<Rightarrow> None | Some v \<Rightarrow> f v)"

definition normalizeEvent :: "raw_event \<Rightarrow> normalized_event" where
  "normalizeEvent e =
    (let type = e_type e;
         login = or_str (chain (e_actor e) ra_login) '''';
         actor = \<lparr> na_login = login,
                   na_avatar_url = chain (e_actor e) ra_avatar_url,
                   na_url = or_opt
                     (map_option (replace_first ''api.github.com/users'' ''github.com'')
                        (chain (e_actor e) ra_url))
                     (if truthy_str (chain (e_actor e) ra_login)
                      then Some (''https://github.com/'' @ tpl (chain (e_actor e) ra_login))
                      else None) \<rparr>;
         repo = map_option
                  (\<lambda>r. \<lparr> nr_name = rr_name r, nr_url = ''https://github.com/'' @ rr_name r \<rparr>)
                  (e_repo e);
         repo_url = map_option nr_url repo;
         created_at = e_created_at e;
         base = \<lparr> n_id = e_id e, n_type = type, n_actionText = '''', n_url = repo_url,
                  n_repo = repo, n_actor = actor, n_created_at = created_at,
                  n_icon = '''', n_details = None \<rparr>
     in
     if type = ''PushEvent'' then
       (let commits = (case chain (e_payload e) p_commits of None \<Rightarrow> [] | Some cs \<Rightarrow> cs);
            details = map (\<lambda>c. ''commit: '' @ rc_message c) commits;
            branch = map_option (replace_first ''refs/heads/'' '''') (chain (e_payload e) p_ref)
        in base \<lparr> n_actionText := login @ txt_ga @ tpl branch @ txt_ni
                       @ string_of_nat (length commits) @ txt_ken_push,
                   n_icon := ''git-commit'', n_details := Some details \<rparr>)
     else if type = ''PullRequestEvent'' then
       (let action = chain (e_payload e) p_action;
            pr = chain (e_payload e) p_pull_request
        in base \<lparr> n_actionText := login @ txt_pr_wo @ tpl action @ '': #''
                       @ tpl_int (chain pr ri_number) @ '' '' @ or_str (chain pr ri_title) '''',
                   n_url := chain pr ri_html_url,
                   n_icon := ''git-pull-request'' \<rparr>)
     else if type = ''IssuesEvent'' then
       (let action = chain (e_payload e) p_action;
            issue = chain (e_payload e) p_issue
        in base \<lparr> n_actionText := login @ txt_issue_wo @ tpl action @ '': #''
                       @ tpl_int (chain issue ri_number) @ '' ''
                       @ or_str (chain issue ri_title) '''',
                   n_url := chain issue ri_html_url,
                   n_icon := ''git-branch'' \<rparr>)
     else if type = ''IssueCommentEvent'' then
       (let action = chain (e_payload e) p_action;
            issue = chain (e_payload e) p_issue
        in base \<lparr> n_actionText := login @ txt_issue_comment @ tpl action @ '')'',
                   n_url := chain issue ri_html_url,
                   n_icon := ''message-square'' \<rparr>)
     else if type = ''WatchEvent'' then
       base \<lparr> n_actionText := login @ txt_star, n_icon := ''star'' \<rparr>
     else if type = ''ForkEvent'' then
       (let forkee = chain (e_payload e) p_forkee
        in base \<lparr> n_actionText := login @ txt_fork,
                   n_url := or_opt (chain forkee rf_html_url) repo_url,
                   n_icon := ''git-fork'' \<rparr>)
     else if type = ''CreateEvent'' then
       (let refType = chain (e_payload e) p_ref_type;
            ref = chain (e_payload e) p_ref
        in base \<lparr> n_actionText := login @ txt_ga @ tpl refType
                       @ (if truthy_str ref then '': '' @ tpl ref else '''') @ txt_created,
                   n_icon := ''file-plus'' \<rparr>)
     else if type = ''ReleaseEvent'' then
       (let rel = chain (e_payload e) p_release
        in base \<lparr> n_actionText := login @ txt_release @ or_str (chain rel rl_tag_name) '''',
                   n_url := or_opt (chain rel rl_html_url) repo_url,
                   n_icon := ''tag'' \<rparr>)
     else if type = ''PublicEvent'' then
       base \<lparr> n_actionText := login @ txt_public, n_icon := ''globe'' \<rparr>
     else
       base \<lparr> n_actionText := login @ txt_ga @ type @ txt_did, n_icon := ''github'' \<rparr>)"


subsection \<open>Local capture events\<close>

datatype capture_type = Click | Keydown | Scroll | RouteChange | Visibility | Heartbeat | Copy

fun type_name :: "capture_type \<Rightarrow> string" where
  "type_name Click = ''click''"
| "type_name Keydown = ''keydown''"
| "type_name Scroll = ''scroll''"
| "type_name RouteChange = ''route-change''"
| "type_name Visibility = ''visibility''"
| "type_name Heartbeat = ''heartbeat''"
| "type_name Copy = ''copy''"

text \<open>
  The values of \<^verbatim>\<open>meta\<close>. A property whose value is \<^verbatim>\<open>undefined\<close> is modelled as absent:
  reading it and serializing it do not tell the two apart.
\<close>

datatype meta_value = MStr string | MNum js_number

record MyActivityEvent =
  m_id :: string
  m_type :: capture_type
  m_label :: string
  m_created_at :: string
  m_meta :: "(string \<times> meta_value) list option"
  m_icon :: string

subsection \<open>The platform\<close>

text \<open>
  What the source takes from its platform. \<open>js_Number s\<close> is \<^verbatim>\<open>Number(s)\<close> on a string;
  \<open>js_getTime s\<close> is \<^verbatim>\<open>new Date(s).getTime()\<close>, with \<open>None\<close> for \<^verbatim>\<open>NaN\<close> (an invalid
  date); \<open>js_init_error st\<close> is the message of the error that building a response with a
  body and the status \<open>st\<close> throws when the status does not allow it; \<open>js_trim s\<close> is
  \<^verbatim>\<open>s.trim()\<close>; \<open>JSON_stringify xs\<close> is \<^verbatim>\<open>JSON.stringify(xs, null, 2)\<close> on a list of local
  capture events and \<open>JSON_parse t\<close> is \<^verbatim>\<open>JSON.parse(t)\<close> read as such a list, \<open>None\<close> when it
  throws.
\<close>

record platform =
  js_Number :: "string \<Rightarrow> js_number"
  js_getTime :: "string \<Rightarrow> int option"
  js_init_error :: "nat \<Rightarrow> string"
  js_trim :: "string \<Rightarrow> string"
  JSON_stringify :: "MyActivityEvent list \<Rightarrow> string"
  JSON_parse :: "string \<Rightarrow> MyActivityEvent list option"

subsection \<open>The handler \<^verbatim>\<open>GET\<close>: request, upstream calls, response\<close>

record request =
  q_username :: "string option"
  q_includeReceived :: "string option"
  q_per_page :: "string option"
  h_authorization :: "string option"

datatype endpoint = EventsPublic | ReceivedEvents

text \<open>
  The URL of an upstream call, by its parts: the user segment (the source passes it through
  \<^verbatim>\<open>encodeURIComponent\<close>, which denotes the same name), the endpoint and the value
  interpolated after \<^verbatim>\<open>per_page=\<close>.
\<close>

record gh_url =
  u_username :: string
  u_endpoint :: endpoint
  u_per_page :: js_number

record gh_request =
  g_url :: gh_url
  g_headers :: "(string \<times> string) list"

text \<open>
  An upstream response: \<open>r_text\<close> is what \<^verbatim>\<open>text()\<close> resolves to, \<open>r_json\<close> the outcome of
  \<^verbatim>\<open>json()\<close>: the message of the error thrown, or the parsed array, whose falsy entries
  (\<^verbatim>\<open>null\<close>) are \<open>None\<close>. A call either rejects with a message or resolves.
\<close>

record upstream_response =
  r_status :: nat
  r_headers :: "string \<Rightarrow> string option"
  r_text :: string
  r_json :: "string + raw_event option list"

definition ok :: "upstream_response \<Rightarrow> bool" where
  "ok r = (200 \<le> r_status r \<and> r_status r \<le> 299)"

datatype fetch_outcome = Rejected string | Resolved upstream_response

record rate =
  rate_limit :: "js_number option"
  rate_remaining :: "js_number option"
  rate_reset :: "js_number option"

datatype body = ErrorBody string | FeedBody "normalized_event list" rate

record response =
  res_status :: nat
  res_body :: body

definition to_lower_ascii :: "char \<Rightarrow> char" where
  "to_lower_ascii c =
     (let n = (of_char c :: nat) in if 65 \<le> n \<and> n \<le> 90 then char_of (n + 32) else c)"

definition perPage :: "platform \<Rightarrow> request \<Rightarrow> js_number" where
  "perPage P req = js_Number P (or_str (q_per_page req) ''30'')"

definition upstream_headers :: "request \<Rightarrow> (string \<times> string) list" where
  "upstream_headers req =
     (let bearer = or_str (h_authorization req) ''''
      in [(''User-Agent'', ''v0-github-activity-feed''),
          (''Accept'', ''application/vnd.github+json'')]
         @ (if map to_lower_ascii (take 7 bearer) = ''bearer ''
            then [(''Authorization'', bearer)] else []))"

definition userEventsUrl :: "platform \<Rightarrow> request \<Rightarrow> gh_url" where
  "userEventsUrl P req =
     \<lparr> u_username = tpl (q_username req), u_endpoint = EventsPublic,
       u_per_page = perPage P req \<rparr>"

definition receivedUrl :: "platform \<Rightarrow> request \<Rightarrow> gh_url" where
  "receivedUrl P req =
     \<lparr> u_username = tpl (q_username req), u_endpoint = ReceivedEvents,
       u_per_page = perPage P req \<rparr>"

text \<open>
  One rate-limit counter:
  \<^verbatim>\<open>(headers.get(h) && Number(headers.get(h))) || undefined\<close>.
\<close>

definition rate_counter :: "platform \<Rightarrow> string option \<Rightarrow> js_number option" where
  "rate_counter P h =
     (case h of
        None \<Rightarrow> None
      | Some s \<Rightarrow>
          if s = [] then None
          else if truthy_number (js_Number P s) then Some (js_Number P s) else None)"

definition rate_of :: "platform \<Rightarrow> upstream_response \<Rightarrow> rate" where
  "rate_of P userRes =
     \<lparr> rate_limit = rate_counter P (r_headers userRes ''x-ratelimit-limit''),
       rate_remaining = rate_counter P (r_headers userRes ''x-ratelimit-remaining''),
       rate_reset = rate_counter P (r_headers userRes ''x-ratelimit-reset'') \<rparr>"

subsection \<open>Merging by identifier\<close>

text \<open>
  The accumulator of the \<^verbatim>\<open>reduce\<close> is an object: its own properties in creation order.
  An assignment to an existing key keeps the key's place; a new key goes last. An
  assignment to the key \<^verbatim>\<open>__proto__\<close> of an object literal goes to the inherited setter: it
  sets the prototype and creates no property.
\<close>

type_synonym 'v js_object = "(string \<times> 'v) list"

definition own_assign :: "'v js_object \<Rightarrow> string \<Rightarrow> 'v \<Rightarrow> 'v js_object" where
  "own_assign acc k v =
     (if k \<in> fst ` set acc
      then map (\<lambda>(k', v'). if k' = k then (k', v) else (k', v')) acc
      else acc @ [(k, v)])"

definition obj_assign :: "'v js_object \<Rightarrow> string \<Rightarrow> 'v \<Rightarrow> 'v js_object" where
  "obj_assign acc k v = (if k = ''__proto__'' then acc else own_assign acc k v)"

text \<open>
  \<^verbatim>\<open>Object.values\<close> lists the properties whose key is an array index (the canonical decimal
  text of a number below \<open>2\<^sup>3\<^sup>2 - 1\<close>) first, in ascending numeric order, and then the
  other keys in creation order.
\<close>

fun nat_of_digits :: "nat \<Rightarrow> string \<Rightarrow> nat option" where
  "nat_of_digits acc [] = Some acc"
| "nat_of_digits acc (c # cs) =
     (let d = (of_char c :: nat)
      in if 48 \<le> d \<and> d \<le> 57 then nat_of_digits (10 * acc + (d - 48)) cs else None)"

definition array_index :: "string \<Rightarrow> nat option" where
  "array_index k =
     (if k = [] then None
      else case nat_of_digits 0 k of
             None \<Rightarrow> None
           | Some n \<Rightarrow> if n < 4294967295 \<and> string_of_nat n = k then Some n else None)"

definition Object_values :: "'v js_object \<Rightarrow> 'v list" where
  "Object_values obj =
     map snd (sort_key (\<lambda>kv. the (array_index (fst kv)))
                (filter (\<lambda>kv. array_index (fst kv) \<noteq> None) obj))
     @ map snd (filter (\<lambda>kv. array_index (fst kv) = None) obj)"

text \<open>\<^verbatim>\<open>.filter(Boolean)\<close> drops the falsy entries of the array.\<close>

definition filter_Boolean :: "'a option list \<Rightarrow> 'a list" where
  "filter_Boolean xs = List.map_filter (\<lambda>x. x) xs"

definition merged :: "raw_event option list \<Rightarrow> raw_event option list \<Rightarrow> raw_event js_object" where
  "merged userEvents receivedEvents =
     foldl (\<lambda>acc e. obj_assign acc (e_id e) e) []
       (filter_Boolean (userEvents @ receivedEvents))"

definition merge_events :: "raw_event option list \<Rightarrow> raw_event option list \<Rightarrow> raw_event list" where
  \<comment> \<open>\<^verbatim>\<open>Object.values(merged)\<close>\<close>
  "merge_events userEvents receivedEvents = Object_values (merged userEvents receivedEvents)"


subsection \<open>Sorting newest first\<close>

text \<open>
  The comparator \<^verbatim>\<open>(a, b) => new Date(b.created_at).getTime() - new Date(a.created_at).getTime()\<close>.
  A difference with \<^verbatim>\<open>NaN\<close> is \<^verbatim>\<open>NaN\<close>, which \<^verbatim>\<open>sort\<close> reads as \<open>0\<close>.
\<close>

definition compare_desc :: "platform \<Rightarrow> string \<Rightarrow> string \<Rightarrow> int" where
  "compare_desc P a b =
     (case (js_getTime P b, js_getTime P a) of
        (Some tb, Some ta) \<Rightarrow> tb - ta
      | _ \<Rightarrow> 0)"

text \<open>
  \<open>time_ge P a b\<close>: the time value of \<open>a\<close> is greater than or equal to that of \<open>b\<close>, as
  \<^verbatim>\<open>>=\<close> compares numbers: no comparison with \<^verbatim>\<open>NaN\<close> holds.
\<close>

definition time_ge :: "platform \<Rightarrow> string \<Rightarrow> string \<Rightarrow> bool" where
  "time_ge P a b =
     (case (js_getTime P a, js_getTime P b) of
        (Some ta, Some tb) \<Rightarrow> ta \<ge> tb
      | _ \<Rightarrow> False)"

text \<open>
  \<^verbatim>\<open>Array.prototype.sort\<close> is stable: \<open>x\<close> stays before \<open>y\<close> unless the comparator is
  positive on them. It is modelled as the stable insertion sort; for a comparator that is not
  a consistent ordering the language leaves the order to the implementation.
\<close>

fun insert_by :: "('a \<Rightarrow> 'a \<Rightarrow> int) \<Rightarrow> 'a \<Rightarrow> 'a list \<Rightarrow> 'a list" where
  "insert_by cmp x [] = [x]"
| "insert_by cmp x (y # ys) = (if cmp x y \<le> 0 then x # y # ys else y # insert_by cmp x ys)"

definition js_sort :: "('a \<Rightarrow> 'a \<Rightarrow> int) \<Rightarrow> 'a list \<Rightarrow> 'a list" where
  "js_sort cmp xs = foldr (insert_by cmp) xs []"

definition normalized :: "platform \<Rightarrow> raw_event list \<Rightarrow> normalized_event list" where
  "normalized P vs =
     js_sort (\<lambda>a b. compare_desc P (n_created_at a) (n_created_at b)) (map normalizeEvent vs)"

subsection \<open>The handler\<close>

text \<open>
  \<^verbatim>\<open>NextResponse.json(body, {status})\<close> throws for a status outside 200..599 and for a status
  that allows no body.
\<close>

definition null_body_status :: "nat \<Rightarrow> bool" where
  "null_body_status st = (st \<in> {101, 103, 204, 205, 304})"

definition NextResponse_json :: "platform \<Rightarrow> body \<Rightarrow> nat \<Rightarrow> string + response" where
  "NextResponse_json P b st =
     (if st < 200 \<or> 599 < st \<or> null_body_status st then Inl (js_init_error P st)
      else Inr \<lparr> res_status = st, res_body = b \<rparr>)"

text \<open>
  The body of the \<^verbatim>\<open>try\<close> block; \<open>Inl m\<close> is an error with message \<open>m\<close> thrown inside it.
  \<^verbatim>\<open>Promise.all\<close> rejects as soon as one of the two calls rejects; when both reject, the
  model reports the primary's message.
\<close>

definition GET_try :: "platform \<Rightarrow> (gh_request \<Rightarrow> fetch_outcome) \<Rightarrow> request \<Rightarrow> string + response" where
  "GET_try P fetch req =
    (let includeReceived = (q_includeReceived req = Some ''1'');
         headers = upstream_headers req
     in
     case fetch \<lparr> g_url = userEventsUrl P req, g_headers = headers \<rparr> of
       Rejected m \<Rightarrow> Inl m
     | Resolved userRes \<Rightarrow>
        (case (if includeReceived
               then (case fetch \<lparr> g_url = receivedUrl P req, g_headers = headers \<rparr> of
                       Rejected m \<Rightarrow> Inl m
                     | Resolved r \<Rightarrow> Inr (Some r))
               else Inr None) of
           Inl m \<Rightarrow> Inl m
         | Inr receivedRes \<Rightarrow>
            (let rate = rate_of P userRes
             in
             if \<not> ok userRes then
               NextResponse_json P (ErrorBody (or_str (Some (r_text userRes)) ''GitHub error''))
                 (r_status userRes)
             else
               (case r_json userRes of
                  Inl m \<Rightarrow> Inl m
                | Inr userEvents \<Rightarrow>
                   (case (case receivedRes of
                            None \<Rightarrow> Inr []
                          | Some r \<Rightarrow> if ok r then r_json r else Inr []) of
                      Inl m \<Rightarrow> Inl m
                    | Inr receivedEvents \<Rightarrow>
                        NextResponse_json P
                          (FeedBody (normalized P (merge_events userEvents receivedEvents))
                             rate)
                          200)))))"

definition GET :: "platform \<Rightarrow> (gh_request \<Rightarrow> fetch_outcome) \<Rightarrow> request \<Rightarrow> response" where
  "GET P fetch req =
     (if \<not> truthy_str (q_username req) then
        \<lparr> res_status = 400, res_body = ErrorBody ''username is required'' \<rparr>
      else
        (case GET_try P fetch req of
           Inl m \<Rightarrow> \<lparr> res_status = 500, res_body = ErrorBody (or_str (Some m) ''Failed'') \<rparr>
         | Inr res \<Rightarrow> res))"

subsection \<open>The page component: state and handlers\<close>

record GithubFeedResponse =
  events :: "normalized_event list"
  rate :: "rate option"

datatype UnifiedItem = Github normalized_event | Local MyActivityEvent

fun created_at :: "UnifiedItem \<Rightarrow> string" where
  "created_at (Github e) = n_created_at e"
| "created_at (Local e) = m_created_at e"

text \<open>
  What the environment supplies when an event is recorded: \<^verbatim>\<open>crypto.randomUUID()\<close> and
  \<^verbatim>\<open>new Date().toISOString()\<close>.
\<close>

record stamp =
  uuid :: string
  now :: string

definition txt_scroll :: string where
  \<comment> \<open>the code points U+30B9 U+30AF U+30ED U+30FC U+30EB SP, in UTF-8\<close>
  "txt_scroll =
   [CHR 0xE3, CHR 0x82, CHR 0xB9, CHR 0xE3, CHR 0x82, CHR 0xAF, CHR 0xE3, CHR 0x83,
    CHR 0xAD, CHR 0xE3, CHR 0x83, CHR 0xBC, CHR 0xE3, CHR 0x83, CHR 0xAB, CHR 0x20]"

definition txt_arrow :: string where
  \<comment> \<open>the code points SP U+2192 SP, in UTF-8\<close>
  "txt_arrow =
   [CHR 0x20, CHR 0xE2, CHR 0x86, CHR 0x92, CHR 0x20]"

definition txt_copy :: string where
  \<comment> \<open>the code points U+30B3 U+30D4 U+30FC, in UTF-8\<close>
  "txt_copy =
   [CHR 0xE3, CHR 0x82, CHR 0xB3, CHR 0xE3, CHR 0x83, CHR 0x94, CHR 0xE3, CHR 0x83,
    CHR 0xBC]"

definition txt_stay :: string where
  \<comment> \<open>the code points U+6EDE U+5728, in UTF-8\<close>
  "txt_stay =
   [CHR 0xE6, CHR 0xBB, CHR 0x9E, CHR 0xE5, CHR 0x9C, CHR 0xA8]"

definition txt_import_failed :: string where
  \<comment> \<open>the code points J S O N SP U+306E U+89E3 U+6790 U+306B U+5931 U+6557 U+3057 U+307E U+3057 U+305F, in UTF-8\<close>
  "txt_import_failed =
   [CHR 0x4A, CHR 0x53, CHR 0x4F, CHR 0x4E, CHR 0x20, CHR 0xE3, CHR 0x81, CHR 0xAE,
    CHR 0xE8, CHR 0xA7, CHR 0xA3, CHR 0xE6, CHR 0x9E, CHR 0x90, CHR 0xE3, CHR 0x81,
    CHR 0xAB, CHR 0xE5, CHR 0xA4, CHR 0xB1, CHR 0xE6, CHR 0x95, CHR 0x97, CHR 0xE3,
    CHR 0x81, CHR 0x97, CHR 0xE3, CHR 0x81, CHR 0xBE, CHR 0xE3, CHR 0x81, CHR 0x97,
    CHR 0xE3, CHR 0x81, CHR 0x9F]"

text \<open>
  The state of \<^verbatim>\<open>Page\<close> that the capture logic uses. \<open>maxScroll\<close> is the variable of that
  name in the closure of the tracking effect; it exists while the listeners are registered.
  \<open>prevRoute\<close> is \<^verbatim>\<open>prevRouteRef.current\<close>.
\<close>

record page =
  myEvents :: "MyActivityEvent list"
  tracking :: bool
  maxScroll :: int
  prevRoute :: string
  gh :: "GithubFeedResponse option"

definition initial_page :: page where
  "initial_page = \<lparr> myEvents = [], tracking = False, maxScroll = 0, prevRoute = '''', gh = None \<rparr>"

text \<open>\<^verbatim>\<open>const add = (e) => setMyEvents((prev) => [e, ...prev].slice(0, 2000)) // cap to 2k\<close>\<close>

definition add :: "MyActivityEvent \<Rightarrow> MyActivityEvent list \<Rightarrow> MyActivityEvent list" where
  "add e prev = take 2000 (e # prev)"

text \<open>
  The target of a click, by what the handler reads of it: the \<^verbatim>\<open>aria-label\<close> attribute,
  \<^verbatim>\<open>innerText?.slice(0, 64)\<close> and \<^verbatim>\<open>tagName\<close>.
\<close>

record element =
  el_aria_label :: "string option"
  el_innerText64 :: "string option"
  el_tagName :: "string option"

definition onClick :: "element option \<Rightarrow> js_number \<Rightarrow> js_number \<Rightarrow> string \<Rightarrow> stamp \<Rightarrow> MyActivityEvent" where
  "onClick target clientX clientY path s =
     (let label = or_str (chain target el_aria_label)
                    (or_str (chain target el_innerText64)
                       (or_str (chain target el_tagName) ''click''))
      in \<lparr> m_id = uuid s, m_type = Click, m_label = label, m_created_at = now s,
           m_meta = Some ([(''x'', MNum clientX), (''y'', MNum clientY)]
                          @ (case chain target el_tagName of
                               None \<Rightarrow> [] | Some t \<Rightarrow> [(''tag'', MStr t)])
                          @ [(''path'', MStr path)]),
           m_icon = ''click'' \<rparr>)"

definition onKey :: "string \<Rightarrow> string \<Rightarrow> stamp \<Rightarrow> MyActivityEvent" where
  "onKey key path s =
     \<lparr> m_id = uuid s, m_type = Keydown, m_label = ''key:'' @ key, m_created_at = now s,
       m_meta = Some [(''key'', MStr key), (''path'', MStr path)],
       m_icon = ''keydown'' \<rparr>"

text \<open>
  The scroll handler, on the depth it computed (an integer, the result of \<^verbatim>\<open>Math.round\<close>)
  and the current value of \<^verbatim>\<open>maxScroll\<close>: the event it adds, if any, and the new value
  of \<^verbatim>\<open>maxScroll\<close>.
\<close>

definition onScroll :: "int \<Rightarrow> string \<Rightarrow> stamp \<Rightarrow> int \<Rightarrow> MyActivityEvent option \<times> int" where
  "onScroll depth path s maxScroll0 =
     (if depth > maxScroll0 then
        (Some \<lparr> m_id = uuid s, m_type = Scroll,
                 m_label = txt_scroll @ string_of_int depth @ ''%'',
                 m_created_at = now s,
                 m_meta = Some [(''depth'', MNum (Fin (of_int depth))), (''path'', MStr path)],
                 m_icon = ''scroll'' \<rparr>,
         depth)
      else (None, maxScroll0))"

definition onVis :: "string \<Rightarrow> stamp \<Rightarrow> MyActivityEvent" where
  "onVis visibilityState s =
     \<lparr> m_id = uuid s, m_type = Visibility, m_label = ''visibility:'' @ visibilityState,
       m_created_at = now s, m_meta = Some [(''state'', MStr visibilityState)],
       m_icon = ''visibility'' \<rparr>"

definition onCopy :: "stamp \<Rightarrow> MyActivityEvent" where
  "onCopy s =
     \<lparr> m_id = uuid s, m_type = Copy, m_label = txt_copy, m_created_at = now s,
       m_meta = None, m_icon = ''copy'' \<rparr>"

definition heartbeat :: "string \<Rightarrow> stamp \<Rightarrow> MyActivityEvent" where
  "heartbeat path s =
     \<lparr> m_id = uuid s, m_type = Heartbeat, m_label = txt_stay, m_created_at = now s,
       m_meta = Some [(''path'', MStr path)], m_icon = ''heartbeat'' \<rparr>"

text \<open>
  What the window and the timer deliver. The listeners and the interval exist only while
  \<open>tracking\<close> holds, so an event that arrives otherwise changes nothing.
\<close>

datatype dom_event =
    ClickEv "element option" js_number js_number string
  | KeyEv string string
  | ScrollEv int string
  | VisEv string
  | CopyEv
  | Tick string

fun handle :: "dom_event \<Rightarrow> stamp \<Rightarrow> page \<Rightarrow> page" where
  "handle (ScrollEv depth path) s st =
     (if tracking st then
        (case onScroll depth path s (maxScroll st) of
           (Some e, m) \<Rightarrow> st \<lparr> maxScroll := m, myEvents := add e (myEvents st) \<rparr>
         | (None, m) \<Rightarrow> st \<lparr> maxScroll := m \<rparr>)
      else st)"
| "handle (ClickEv target x y path) s st =
     (if tracking st then st \<lparr> myEvents := add (onClick target x y path s) (myEvents st) \<rparr>
      else st)"
| "handle (KeyEv key path) s st =
     (if tracking st then st \<lparr> myEvents := add (onKey key path s) (myEvents st) \<rparr> else st)"
| "handle (VisEv state) s st =
     (if tracking st then st \<lparr> myEvents := add (onVis state s) (myEvents st) \<rparr> else st)"
| "handle CopyEv s st =
     (if tracking st then st \<lparr> myEvents := add (onCopy s) (myEvents st) \<rparr> else st)"
| "handle (Tick path) s st =
     (if tracking st then st \<lparr> myEvents := add (heartbeat path s) (myEvents st) \<rparr> else st)"

text \<open>
  The effect that tracks route changes; it runs when \<^verbatim>\<open>pathname\<close>, \<^verbatim>\<open>searchParams\<close> or
  \<^verbatim>\<open>tracking\<close> changes. \<open>search\<close> is \<^verbatim>\<open>searchParams?.toString()\<close>. The event is
  prepended as it is, without the cut that \<open>add\<close> makes. Its label reads
  \<^verbatim>\<open>prevRouteRef.current\<close> inside the state updater; the model takes the value that the
  reference holds before the effect assigns the new route to it.
\<close>

definition full_route :: "string \<Rightarrow> string option \<Rightarrow> string" where
  "full_route pathname search = pathname @ (if truthy_str search then ''?'' @ tpl search else '''')"

definition route_change :: "string \<Rightarrow> string \<Rightarrow> stamp \<Rightarrow> MyActivityEvent" where
  "route_change prev full s =
     \<lparr> m_id = uuid s, m_type = RouteChange, m_label = prev @ txt_arrow @ full,
       m_created_at = now s, m_meta = Some [(''from'', MStr prev), (''to'', MStr full)],
       m_icon = ''route-change'' \<rparr>"

definition route_effect :: "string \<Rightarrow> string option \<Rightarrow> stamp \<Rightarrow> page \<Rightarrow> page" where
  "route_effect pathname search s st =
     (if prevRoute st \<noteq> [] \<and> tracking st
      then st \<lparr> myEvents := route_change (prevRoute st) (full_route pathname search) s # myEvents st \<rparr>
      else st)
     \<lparr> prevRoute := full_route pathname search \<rparr>"

text \<open>
  The effect that registers the listeners; it runs when \<open>tracking\<close> changes. With
  \<open>tracking\<close> on it creates a new closure, whose \<^verbatim>\<open>maxScroll\<close> starts at \<open>0\<close>; the cleanup
  of the previous run has removed the old listeners.
\<close>

definition tracking_effect :: "page \<Rightarrow> page" where
  "tracking_effect st = (if tracking st then st \<lparr> maxScroll := 0 \<rparr> else st)"

text \<open>
  The switch calls \<^verbatim>\<open>setTracking\<close>. A change of \<open>tracking\<close> re-runs both effects that
  depend on it, in the order of their declaration, on the current route.
\<close>

definition setTracking :: "bool \<Rightarrow> string \<Rightarrow> string option \<Rightarrow> stamp \<Rightarrow> page \<Rightarrow> page" where
  "setTracking v pathname search s st =
     (if tracking st = v then st
      else route_effect pathname search s (tracking_effect (st \<lparr> tracking := v \<rparr>)))"

definition navigate :: "string \<Rightarrow> string option \<Rightarrow> stamp \<Rightarrow> page \<Rightarrow> page" where
  "navigate pathname search s st = route_effect pathname search s st"

subsection \<open>The unified view, export, import and clear\<close>

definition unified :: "platform \<Rightarrow> page \<Rightarrow> UnifiedItem list" where
  "unified P st =
     (let ghItems = (case gh st of None \<Rightarrow> [] | Some g \<Rightarrow> map Github (events g));
          localItems = map Local (myEvents st)
      in js_sort (\<lambda>a b. compare_desc P (created_at a) (created_at b)) (ghItems @ localItems))"

definition clearLocal :: "page \<Rightarrow> page" where
  "clearLocal st = st \<lparr> myEvents := [] \<rparr>"


text \<open>
  \<^verbatim>\<open>onImport\<close> on the text of the chosen file, if one was chosen: the new state and the
  alert shown, if any.
\<close>

definition onImport :: "platform \<Rightarrow> string option \<Rightarrow> page \<Rightarrow> page \<times> string option" where
  "onImport P file st =
     (case file of
        None \<Rightarrow> (st, None)
      | Some text \<Rightarrow>
          (case JSON_parse P text of
             Some parsed \<Rightarrow> (st \<lparr> myEvents := parsed \<rparr>, None)
           | None \<Rightarrow> (st, Some txt_import_failed)))"

subsection \<open>The client's request\<close>






subsection \<open>Runs of the page\<close>

text \<open>
  What can happen to the page while \<open>tracking\<close> keeps its value: an event of the window or
  the timer, a change of route, an import, a clearing of the list. A run delivers such
  actions one after the other; \<open>scroll_depths\<close> lists the depths of the scroll events among
  them.
\<close>

datatype action = Dom dom_event | Navigate string "string option" | Import "string option" | Clear

fun step :: "platform \<Rightarrow> action \<Rightarrow> stamp \<Rightarrow> page \<Rightarrow> page" where
  "step P (Dom ev) s st = handle ev s st"
| "step P (Navigate pathname search) s st = navigate pathname search s st"
| "step P (Import file) s st = fst (onImport P file st)"
| "step P Clear s st = clearLocal st"

definition run :: "platform \<Rightarrow> (action \<times> stamp) list \<Rightarrow> page \<Rightarrow> page" where
  "run P as st = foldl (\<lambda>st (a, s). step P a s st) st as"

fun scroll_depths :: "(action \<times> stamp) list \<Rightarrow> int list" where
  "scroll_depths [] = []"
| "scroll_depths ((Dom (ScrollEv d p), s) # as) = d # scroll_depths as"
| "scroll_depths (_ # as) = scroll_depths as"


subsection \<open>The JSON codec\<close>

text \<open>
  The values that \<^verbatim>\<open>JSON.parse\<close> yields: an object is the list of its own properties in
  their order.
\<close>

datatype json =
    JNull
  | JBool bool
  | JNum js_number
  | JStr string
  | JArr "json list"
  | JObj "(string \<times> json) list"

text \<open>
  \<^verbatim>\<open>JSON.stringify(value, null, 2)\<close>. A string is quoted with the escapes of
  \<^verbatim>\<open>QuoteJSONString\<close>: the quote, the backslash and the code points below \<open>0x20\<close>. A number
  that is not finite is written \<^verbatim>\<open>null\<close>; an integer of magnitude at most \<open>2\<^sup>5\<^sup>3\<close> is
  written with all its decimal digits. Every other number is written by the platform as the
  shortest decimal that rounds to the double; the model leaves that conversion out and
  writes the digits of the integer part, so it is the platform's only on those integers.
\<close>

definition hex_digit :: "nat \<Rightarrow> char" where
  "hex_digit d = ''0123456789abcdef'' ! (d mod 16)"

definition escape_char :: "char \<Rightarrow> string" where
  "escape_char c =
     (let n = (of_char c :: nat) in
      if n = 0x22 then [CHR 0x5C, CHR 0x22]
      else if n = 0x5C then [CHR 0x5C, CHR 0x5C]
      else if n = 8 then [CHR 0x5C, CHR ''b'']
      else if n = 9 then [CHR 0x5C, CHR ''t'']
      else if n = 10 then [CHR 0x5C, CHR ''n'']
      else if n = 12 then [CHR 0x5C, CHR ''f'']
      else if n = 13 then [CHR 0x5C, CHR ''r'']
      else if n < 0x20 then [CHR 0x5C, CHR ''u'', CHR ''0'', CHR ''0'', hex_digit (n div 16), hex_digit n]
      else [c])"

definition quote :: "string \<Rightarrow> string" where
  "quote s = CHR 0x22 # concat (map escape_char s) @ [CHR 0x22]"

fun number_text :: "js_number \<Rightarrow> string" where
  "number_text (Fin r) = string_of_int \<lfloor>r\<rfloor>"
| "number_text NaN = ''null''"
| "number_text PosInf = ''null''"
| "number_text NegInf = ''null''"

definition nl :: "nat \<Rightarrow> string" where
  "nl ind = CHR 0x0A # replicate ind (CHR 0x20)"

fun join_items :: "nat \<Rightarrow> string list \<Rightarrow> string" where
  "join_items ind [] = []"
| "join_items ind [x] = nl ind @ x"
| "join_items ind (x # y # ys) = nl ind @ x @ '','' @ join_items ind (y # ys)"

fun stringify :: "nat \<Rightarrow> json \<Rightarrow> string" where
  "stringify ind JNull = ''null''"
| "stringify ind (JBool b) = (if b then ''true'' else ''false'')"
| "stringify ind (JNum n) = number_text n"
| "stringify ind (JStr s) = quote s"
| "stringify ind (JArr vs) =
     (if vs = [] then ''[]''
      else ''['' @ join_items (ind + 2) (map (stringify (ind + 2)) vs) @ nl ind @ '']'')"
| "stringify ind (JObj ms) =
     (if ms = [] then ''{}''
      else ''{'' @ join_items (ind + 2)
                    (map (\<lambda>m. quote (fst m) @ '': '' @ stringify (ind + 2) (snd m)) ms)
           @ nl ind @ ''}'')"

text \<open>
  \<^verbatim>\<open>JSON.parse\<close> creates the properties of an object in the order of the text; a key that
  occurs again overwrites the value and keeps the place. The properties are then listed
  with the array indices first, as for every object.
\<close>

definition assign_all :: "(string \<times> 'v) list \<Rightarrow> 'v js_object" where
  "assign_all ms = foldl (\<lambda>acc m. own_assign acc (fst m) (snd m)) [] ms"

definition property_order :: "'v js_object \<Rightarrow> 'v js_object" where
  "property_order obj =
     sort_key (\<lambda>kv. the (array_index (fst kv))) (filter (\<lambda>kv. array_index (fst kv) \<noteq> None) obj)
     @ filter (\<lambda>kv. array_index (fst kv) = None) obj"

text \<open>
  \<^verbatim>\<open>JSON.parse\<close>, by recursive descent over the JSON grammar. White space is the space, the
  tab, the line feed and the carriage return. The fuel bounds the nesting and the number of
  entries; the length of the text is enough of it.
\<close>

definition is_ws :: "char \<Rightarrow> bool" where
  "is_ws c = ((of_char c :: nat) \<in> {0x20, 0x09, 0x0A, 0x0D})"

definition skip_ws :: "string \<Rightarrow> string" where
  "skip_ws s = dropWhile is_ws s"

definition is_digit :: "char \<Rightarrow> bool" where
  "is_digit c = (48 \<le> (of_char c :: nat) \<and> (of_char c :: nat) \<le> 57)"

definition digits_value :: "string \<Rightarrow> nat" where
  "digits_value ds = foldl (\<lambda>acc c. 10 * acc + ((of_char c :: nat) - 48)) 0 ds"

definition hex_value :: "char \<Rightarrow> nat option" where
  "hex_value c =
     (let n = (of_char c :: nat) in
      if 48 \<le> n \<and> n \<le> 57 then Some (n - 48)
      else if 97 \<le> n \<and> n \<le> 102 then Some (n - 87)
      else if 65 \<le> n \<and> n \<le> 70 then Some (n - 55)
      else None)"

text \<open>
  The UTF-8 bytes of a code point. A surrogate that is not part of a pair has none, and a
  text that escapes one is outside the model.
\<close>

definition utf8 :: "nat \<Rightarrow> string" where
  "utf8 cp =
     (if cp < 0x80 then [char_of cp]
      else if cp < 0x800 then [char_of (0xC0 + cp div 64), char_of (0x80 + cp mod 64)]
      else if cp < 0x10000 then
        [char_of (0xE0 + cp div 4096), char_of (0x80 + (cp div 64) mod 64), char_of (0x80 + cp mod 64)]
      else
        [char_of (0xF0 + cp div 262144), char_of (0x80 + (cp div 4096) mod 64),
         char_of (0x80 + (cp div 64) mod 64), char_of (0x80 + cp mod 64)])"

definition hex4 :: "char \<Rightarrow> char \<Rightarrow> char \<Rightarrow> char \<Rightarrow> nat option" where
  "hex4 a b c d =
     (case (hex_value a, hex_value b, hex_value c, hex_value d) of
        (Some w, Some x, Some y, Some z) \<Rightarrow> Some (((w * 16 + x) * 16 + y) * 16 + z)
      | _ \<Rightarrow> None)"

text \<open>The characters of a string after its opening quote, up to the closing quote.\<close>

fun parse_chars :: "string \<Rightarrow> (string \<times> string) option" where
  "parse_chars [] = None"
| "parse_chars (c # cs) =
     (if c = CHR 0x22 then Some ([], cs)
      else if c = CHR 0x5C then
        (case cs of
           [] \<Rightarrow> None
         | e # r \<Rightarrow>
            if e = CHR ''u'' then
              (case r of
                 a # b # x # y # r' \<Rightarrow>
                   (case hex4 a b x y of
                      None \<Rightarrow> None
                    | Some u \<Rightarrow>
                        if 0xD800 \<le> u \<and> u < 0xDC00 then
                          (case r' of
                             b1 # b2 # a2 # b3 # x2 # y2 # r'' \<Rightarrow>
                               (case hex4 a2 b3 x2 y2 of
                                  None \<Rightarrow> None
                                | Some l \<Rightarrow>
                                    if b1 = CHR 0x5C \<and> b2 = CHR ''u'' \<and> 0xDC00 \<le> l \<and> l < 0xE000
                                    then map_option
                                           (\<lambda>(t, z). (utf8 (0x10000 + (u - 0xD800) * 1024 + (l - 0xDC00)) @ t, z))
                                           (parse_chars r'')
                                    else None)
                           | _ \<Rightarrow> None)
                        else if 0xDC00 \<le> u \<and> u < 0xE000 then None
                        else map_option (\<lambda>(t, z). (utf8 u @ t, z)) (parse_chars r'))
               | _ \<Rightarrow> None)
            else
              (case (if e = CHR 0x22 then Some (CHR 0x22)
                     else if e = CHR 0x5C then Some (CHR 0x5C)
                     else if e = CHR ''/'' then Some (CHR ''/'')
                     else if e = CHR ''b'' then Some (CHR 0x08)
                     else if e = CHR ''f'' then Some (CHR 0x0C)
                     else if e = CHR ''n'' then Some (CHR 0x0A)
                     else if e = CHR ''r'' then Some (CHR 0x0D)
                     else if e = CHR ''t'' then Some (CHR 0x09)
                     else None) of
                 None \<Rightarrow> None
               | Some d \<Rightarrow> map_option (\<lambda>(t, z). (d # t, z)) (parse_chars r)))
      else if (of_char c :: nat) < 0x20 then None
      else map_option (\<lambda>(t, z). (c # t, z)) (parse_chars cs))"

text \<open>
  A number: an optional minus, an integer part without a leading zero, an optional fraction
  and an optional exponent. The value is that of the decimal; the platform rounds it to a
  double, which changes nothing for an integer below \<open>2\<^sup>5\<^sup>3\<close> in magnitude.
\<close>

definition parse_number :: "string \<Rightarrow> (js_number \<times> string) option" where
  "parse_number s =
     (let neg = (s \<noteq> [] \<and> hd s = CHR ''-'');
          s1 = (if neg then tl s else s);
          ds = takeWhile is_digit s1;
          s2 = dropWhile is_digit s1
      in
      if ds = [] \<or> (length ds > 1 \<and> hd ds = CHR ''0'') then None
      else
        (let has_frac = (s2 \<noteq> [] \<and> hd s2 = CHR ''.'');
             fs = (if has_frac then takeWhile is_digit (tl s2) else []);
             s3 = (if has_frac then dropWhile is_digit (tl s2) else s2)
         in
         if has_frac \<and> fs = [] then None
         else
           (let has_exp = (s3 \<noteq> [] \<and> (hd s3 = CHR ''e'' \<or> hd s3 = CHR ''E''));
                s4 = (if has_exp then tl s3 else s3);
                eneg = (has_exp \<and> s4 \<noteq> [] \<and> hd s4 = CHR ''-'');
                s5 = (if has_exp \<and> s4 \<noteq> [] \<and> (hd s4 = CHR ''-'' \<or> hd s4 = CHR ''+'')
                      then tl s4 else s4);
                es = (if has_exp then takeWhile is_digit s5 else []);
                s6 = (if has_exp then dropWhile is_digit s5 else s3)
            in
            if has_exp \<and> es = [] then None
            else
              (let m = (of_nat (digits_value ds) :: rat)
                       + of_nat (digits_value fs) / 10 ^ length fs;
                   v = (if eneg then m / 10 ^ digits_value es else m * 10 ^ digits_value es)
               in Some (Fin (if neg then - v else v), s6)))))"

fun parse_value :: "nat \<Rightarrow> string \<Rightarrow> (json \<times> string) option"
  and parse_elements :: "nat \<Rightarrow> string \<Rightarrow> (json list \<times> string) option"
  and parse_members :: "nat \<Rightarrow> string \<Rightarrow> ((string \<times> json) list \<times> string) option"
where
  "parse_value 0 s = None"
| "parse_value (Suc n) s =
     (case skip_ws s of
        [] \<Rightarrow> None
      | c # cs \<Rightarrow>
          if c = CHR 0x22 then map_option (\<lambda>(t, r). (JStr t, r)) (parse_chars cs)
          else if c = CHR ''['' then
            (case skip_ws cs of
               [] \<Rightarrow> None
             | d # r \<Rightarrow>
                 if d = CHR '']'' then Some (JArr [], r)
                 else map_option (\<lambda>(vs, r'). (JArr vs, r')) (parse_elements n cs))
          else if c = CHR ''{'' then
            (case skip_ws cs of
               [] \<Rightarrow> None
             | d # r \<Rightarrow>
                 if d = CHR ''}'' then Some (JObj [], r)
                 else map_option (\<lambda>(ms, r'). (JObj (property_order (assign_all ms)), r'))
                        (parse_members n cs))
          else if take 4 (c # cs) = ''null'' then Some (JNull, drop 4 (c # cs))
          else if take 4 (c # cs) = ''true'' then Some (JBool True, drop 4 (c # cs))
          else if take 5 (c # cs) = ''false'' then Some (JBool False, drop 5 (c # cs))
          else map_option (\<lambda>(x, r). (JNum x, r)) (parse_number (c # cs)))"
| "parse_elements 0 s = None"
| "parse_elements (Suc n) s =
     (case parse_value n s of
        None \<Rightarrow> None
      | Some (v, r) \<Rightarrow>
          (case skip_ws r of
             [] \<Rightarrow> None
           | c # r' \<Rightarrow>
               if c = CHR '','' then map_option (\<lambda>(vs, z). (v # vs, z)) (parse_elements n r')
               else if c = CHR '']'' then Some ([v], r')
               else None))"
| "parse_members 0 s = None"
| "parse_members (Suc n) s =
     (case skip_ws s of
        [] \<Rightarrow> None
      | q # s1 \<Rightarrow>
          if q \<noteq> CHR 0x22 then None
          else
            (case parse_chars s1 of
               None \<Rightarrow> None
             | Some (k, s2) \<Rightarrow>
                 (case skip_ws s2 of
                    [] \<Rightarrow> None
                  | c # s3 \<Rightarrow>
                      if c \<noteq> CHR '':'' then None
                      else
                        (case parse_value n s3 of
                           None \<Rightarrow> None
                         | Some (v, r) \<Rightarrow>
                             (case skip_ws r of
                                [] \<Rightarrow> None
                              | d # r' \<Rightarrow>
                                  if d = CHR '','' then
                                    map_option (\<lambda>(ms, z). ((k, v) # ms, z)) (parse_members n r')
                                  else if d = CHR ''}'' then Some ([(k, v)], r')
                                  else None)))))"

definition JSON_parse_text :: "string \<Rightarrow> json option" where
  "JSON_parse_text t =
     (case parse_value (length t) t of
        None \<Rightarrow> None
      | Some (j, r) \<Rightarrow> if skip_ws r = [] then Some j else None)"

text \<open>
  The list of local capture events as the value that \<^verbatim>\<open>JSON.stringify\<close> walks: the
  properties of an event in the order of the object literals of the handlers, \<^verbatim>\<open>meta\<close> left
  out when it is undefined. \<open>json_events\<close> reads a parsed value back as a list of events; a
  value of another shape has no place in the state of the page as it is typed, and the model
  answers for it as for a text that does not parse.
\<close>

fun meta_json :: "meta_value \<Rightarrow> json" where
  "meta_json (MStr s) = JStr s"
| "meta_json (MNum n) = JNum n"

definition event_json :: "MyActivityEvent \<Rightarrow> json" where
  "event_json e =
     JObj ([(''id'', JStr (m_id e)), (''type'', JStr (type_name (m_type e))),
            (''label'', JStr (m_label e)), (''created_at'', JStr (m_created_at e))]
           @ (case m_meta e of
                None \<Rightarrow> []
              | Some mm \<Rightarrow> [(''meta'', JObj (map (\<lambda>m. (fst m, meta_json (snd m))) mm))])
           @ [(''icon'', JStr (m_icon e))])"

definition events_json :: "MyActivityEvent list \<Rightarrow> json" where
  "events_json xs = JArr (map event_json xs)"

fun json_meta :: "json \<Rightarrow> meta_value option" where
  "json_meta (JStr s) = Some (MStr s)"
| "json_meta (JNum n) = Some (MNum n)"
| "json_meta _ = None"

definition type_of_name :: "string \<Rightarrow> capture_type option" where
  "type_of_name t =
     map_of (map (\<lambda>c. (type_name c, c))
               [Click, Keydown, Scroll, RouteChange, Visibility, Heartbeat, Copy]) t"

fun json_string :: "json option \<Rightarrow> string option" where
  "json_string (Some (JStr s)) = Some s"
| "json_string _ = None"

fun json_meta_object :: "json option \<Rightarrow> (string \<times> meta_value) list option option" where
  "json_meta_object None = Some None"
| "json_meta_object (Some (JObj mm)) =
     map_option Some (those (map (\<lambda>m. map_option (Pair (fst m)) (json_meta (snd m))) mm))"
| "json_meta_object _ = None"

fun json_event :: "json \<Rightarrow> MyActivityEvent option" where
  "json_event (JObj ms) =
     (if \<not> set (map fst ms) \<subseteq> {''id'', ''type'', ''label'', ''created_at'', ''meta'', ''icon''}
      then None
      else
        (case (json_string (map_of ms ''id''), json_string (map_of ms ''type''),
               json_string (map_of ms ''label''), json_string (map_of ms ''created_at''),
               json_string (map_of ms ''icon''), json_meta_object (map_of ms ''meta'')) of
           (Some i, Some t, Some l, Some c, Some ic, Some mm) \<Rightarrow>
             (case type_of_name t of
                None \<Rightarrow> None
              | Some ty \<Rightarrow>
                  Some \<lparr> m_id = i, m_type = ty, m_label = l, m_created_at = c, m_meta = mm,
                         m_icon = ic \<rparr>)
         | _ \<Rightarrow> None))"
| "json_event _ = None"

fun json_events :: "json \<Rightarrow> MyActivityEvent list option" where
  "json_events (JArr vs) = those (map json_event vs)"
| "json_events _ = None"

definition ecma_stringify :: "MyActivityEvent list \<Rightarrow> string" where
  "ecma_stringify xs = stringify 0 (events_json xs)"

definition ecma_parse :: "string \<Rightarrow> MyActivityEvent list option" where
  "ecma_parse t = (case JSON_parse_text t of None \<Rightarrow> None | Some j \<Rightarrow> json_events j)"

text \<open>
  The lists on which the model of the codec is that of the platform: in every \<^verbatim>\<open>meta\<close> the
  keys are distinct and none is an array index, as the properties of an object in their
  order are, and every number is an integer of magnitude at most \<open>2\<^sup>5\<^sup>3\<close>, which
  the platform prints with all its digits and reads back exactly.
\<close>

fun json_safe_value :: "meta_value \<Rightarrow> bool" where
  "json_safe_value (MStr s) = True"
| "json_safe_value (MNum (Fin r)) = (r \<in> \<int> \<and> \<bar>r\<bar> \<le> 2 ^ 53)"
| "json_safe_value (MNum _) = False"

definition json_safe_meta :: "(string \<times> meta_value) list \<Rightarrow> bool" where
  "json_safe_meta mm =
     (distinct (map fst mm)
      \<and> list_all (\<lambda>m. array_index (fst m) = None \<and> json_safe_value (snd m)) mm)"

definition json_safe_events :: "MyActivityEvent list \<Rightarrow> bool" where
  "json_safe_events xs =
     list_all (\<lambda>e. case m_meta e of None \<Rightarrow> True | Some mm \<Rightarrow> json_safe_meta mm) xs"



text \<open>
  The events of the window and the actions on the page that keep the list within these
  lists: a click at whole coordinates, a scroll to a depth, which \<^verbatim>\<open>Math.round\<close> makes an
  integer, and an import of a file whose list is within them.
\<close>

fun safe_dom :: "dom_event \<Rightarrow> bool" where
  "safe_dom (ClickEv target x y path) = (json_safe_value (MNum x) \<and> json_safe_value (MNum y))"
| "safe_dom (ScrollEv depth path) = (\<bar>depth\<bar> \<le> 2 ^ 53)"
| "safe_dom _ = True"

fun safe_action :: "platform \<Rightarrow> action \<Rightarrow> bool" where
  "safe_action P (Dom ev) = safe_dom ev"
| "safe_action P (Import (Some t)) =
     (case JSON_parse P t of None \<Rightarrow> True | Some xs \<Rightarrow> json_safe_events xs)"
| "safe_action P _ = True"

text \<open>A text by its lines, for the texts written out below.\<close>

fun text_lines :: "string list \<Rightarrow> string" where
  "text_lines [] = []"
| "text_lines [l] = l"
| "text_lines (l # k # ls) = l @ CHR 0x0A # text_lines (k # ls)"

subsection \<open>A reference platform for evaluation\<close>

text \<open>
  The general results below hold for every platform, but for the round trip of the export,
  which is a result about the codec. Results at a concrete input are evaluated on the
  stand-ins of this section, each of which agrees with the platform on the arguments it is
  given there.

  \<open>Number_dec\<close> is \<^verbatim>\<open>Number\<close> on a text of one to fifteen decimal digits, whose value a
  double holds exactly; elsewhere it answers \<^verbatim>\<open>NaN\<close>, which is \<^verbatim>\<open>Number\<close> on a text that
  is no numeric literal.
\<close>

definition Number_dec :: "string \<Rightarrow> js_number" where
  "Number_dec s =
     (if s \<noteq> [] \<and> length s \<le> 15
      then (case nat_of_digits 0 s of None \<Rightarrow> NaN | Some n \<Rightarrow> Fin (of_nat n))
      else NaN)"

text \<open>
  \<open>getTime_iso\<close> is the time value, in milliseconds since 1970, of a text of the form
  \<^verbatim>\<open>YYYY-MM-DDTHH:MM:SSZ\<close> (the API's timestamps) or \<^verbatim>\<open>YYYY-MM-DDTHH:MM:SS.mmmZ\<close> (what
  \<^verbatim>\<open>toISOString\<close> returns); elsewhere it answers \<open>None\<close>, which is the platform's answer
  for a text that is no date.
\<close>

definition days_from_civil :: "int \<Rightarrow> int \<Rightarrow> int \<Rightarrow> int" where
  "days_from_civil y m d =
     (let y' = (if m \<le> 2 then y - 1 else y);
          era = y' div 400;
          yoe = y' - era * 400;
          doy = (153 * (if m > 2 then m - 3 else m + 9) + 2) div 5 + d - 1;
          doe = yoe * 365 + yoe div 4 - yoe div 100 + doy
      in era * 146097 + doe - 719468)"

definition days_in_month :: "int \<Rightarrow> int \<Rightarrow> int" where
  "days_in_month y m =
     (if m = 2 then (if y mod 4 = 0 \<and> (y mod 100 \<noteq> 0 \<or> y mod 400 = 0) then 29 else 28)
      else if m \<in> {4, 6, 9, 11} then 30 else 31)"

definition iso_seconds :: "string \<Rightarrow> int option" where
  \<comment> \<open>the seconds since 1970 that the first 19 characters \<^verbatim>\<open>YYYY-MM-DDTHH:MM:SS\<close> denote\<close>
  "iso_seconds s =
     (if 19 \<le> length s \<and> s ! 4 = CHR ''-'' \<and> s ! 7 = CHR ''-'' \<and> s ! 10 = CHR ''T''
         \<and> s ! 13 = CHR '':'' \<and> s ! 16 = CHR '':''
      then
        (case (nat_of_digits 0 (take 4 s), nat_of_digits 0 (take 2 (drop 5 s)),
               nat_of_digits 0 (take 2 (drop 8 s)), nat_of_digits 0 (take 2 (drop 11 s)),
               nat_of_digits 0 (take 2 (drop 14 s)), nat_of_digits 0 (take 2 (drop 17 s))) of
           (Some y, Some m, Some d, Some h, Some mi, Some sec) \<Rightarrow>
             if 1 \<le> m \<and> m \<le> 12 \<and> 1 \<le> d \<and> int d \<le> days_in_month (int y) (int m)
                \<and> h \<le> 23 \<and> mi \<le> 59 \<and> sec \<le> 59
             then Some (((days_from_civil (int y) (int m) (int d) * 24 + int h) * 60 + int mi) * 60
                         + int sec)
             else None
         | _ \<Rightarrow> None)
      else None)"

definition getTime_iso :: "string \<Rightarrow> int option" where
  "getTime_iso s =
     (if length s = 20 \<and> s ! 19 = CHR ''Z'' then map_option (\<lambda>t. t * 1000) (iso_seconds s)
      else if length s = 24 \<and> s ! 19 = CHR ''.'' \<and> s ! 23 = CHR ''Z'' then
        (case (iso_seconds s, nat_of_digits 0 (take 3 (drop 20 s))) of
           (Some t, Some ms) \<Rightarrow> Some (t * 1000 + int ms)
         | _ \<Rightarrow> None)
      else None)"

text \<open>\<open>trim_ascii\<close> is \<^verbatim>\<open>trim()\<close> on a text whose white space is ASCII.\<close>

definition ascii_space :: "char \<Rightarrow> bool" where
  "ascii_space c = ((of_char c :: nat) \<in> {9, 10, 11, 12, 13, 32})"

definition trim_ascii :: "string \<Rightarrow> string" where
  "trim_ascii s = rev (dropWhile ascii_space (rev (dropWhile ascii_space s)))"

text \<open>
  \<open>JSON_stringify\<close> and \<open>JSON_parse\<close> are \<open>ecma_stringify\<close> and \<open>ecma_parse\<close>, the codec of the
  section above.
\<close>

definition ref_platform :: platform where
  "ref_platform =
     \<lparr> js_Number = Number_dec, js_getTime = getTime_iso,
       js_init_error = (\<lambda>st. ''Invalid response status code '' @ string_of_nat st),
       js_trim = trim_ascii, JSON_stringify = ecma_stringify, JSON_parse = ecma_parse \<rparr>"

text \<open>Sample events for evaluation.\<close>

definition sample_event :: "string \<Rightarrow> string \<Rightarrow> string \<Rightarrow> raw_event" where
  "sample_event i t c =
     \<lparr> e_id = i, e_type = t, e_actor = None, e_repo = None, e_created_at = c, e_payload = None \<rparr>"

definition sample_user :: "raw_event option list" where
  "sample_user =
     [Some (sample_event ''b'' ''WatchEvent'' ''2024-01-01T00:00:00Z''), None,
      Some (sample_event ''7'' ''PushEvent'' ''2024-01-01T00:00:01Z'')]"

definition sample_received :: "raw_event option list" where
  "sample_received = [Some (sample_event ''b'' ''ForkEvent'' ''2023-12-31T23:59:59Z'')]"

text \<open>The \<^verbatim>\<open>reduce\<close> of \<open>merged\<close> on own properties, from any accumulator, for the proofs.\<close>

definition by_id :: "raw_event js_object \<Rightarrow> raw_event list \<Rightarrow> raw_event js_object" where
  "by_id acc xs = foldl (\<lambda>acc e. own_assign acc (e_id e) e) acc xs"

definition sample_values :: "raw_event list" where
  "sample_values =
     [sample_event ''a'' ''WatchEvent'' ''2024-01-01T00:00:01Z'',
      sample_event ''b'' ''ForkEvent'' ''2024-01-01T00:00:02Z'',
      sample_event ''c'' ''PushEvent'' ''2024-01-01T00:00:00Z'']"

definition sample_local :: "string \<Rightarrow> string \<Rightarrow> MyActivityEvent" where
  "sample_local i c = onCopy \<lparr> uuid = i, now = c \<rparr>"

definition sample_page :: page where
  "sample_page =
     initial_page
       \<lparr> myEvents := [sample_local ''id-2'' ''2024-01-01T00:00:01.500Z'',
                       sample_local ''id-1'' ''2024-01-01T00:00:00.500Z''],
         gh := Some \<lparr> events = normalized ref_platform sample_values, rate = None \<rparr> \<rparr>"


definition sample_response ::
    "nat \<Rightarrow> (string \<times> string) list \<Rightarrow> string \<Rightarrow> (string + raw_event option list) \<Rightarrow> upstream_response" where
  "sample_response st hs t j = \<lparr> r_status = st, r_headers = map_of hs, r_text = t, r_json = j \<rparr>"

definition fetch_by_endpoint :: "fetch_outcome \<Rightarrow> fetch_outcome \<Rightarrow> gh_request \<Rightarrow> fetch_outcome" where
  "fetch_by_endpoint a b rq =
     (case u_endpoint (g_url rq) of EventsPublic \<Rightarrow> a | ReceivedEvents \<Rightarrow> b)"

definition sample_request :: request where
  "sample_request =
     \<lparr> q_username = Some ''vercel'', q_includeReceived = Some ''1'', q_per_page = None,
       h_authorization = None \<rparr>"

definition no_rate :: rate where
  "no_rate = \<lparr> rate_limit = None, rate_remaining = None, rate_reset = None \<rparr>"

definition exhausted_response :: upstream_response where
  "exhausted_response =
     sample_response 200
       [(''x-ratelimit-limit'', ''60''), (''x-ratelimit-remaining'', ''0''),
        (''x-ratelimit-reset'', ''1704067200'')]
       ''[]'' (Inr [])"


text \<open>
  A capturing page whose list holds 2000 entries, and a page that has recorded a scroll depth
  of 80 in its session.
\<close>

definition full_page :: page where
  "full_page =
     initial_page
       \<lparr> myEvents := replicate 2000 (sample_local ''id-0'' ''2024-01-01T00:00:00.000Z''),
         tracking := True, prevRoute := ''/'' \<rparr>"

definition sample_stamp :: stamp where
  "sample_stamp = \<lparr> uuid = ''id-9'', now = ''2024-01-01T00:00:09.000Z'' \<rparr>"

definition scrolled_page :: page where
  "scrolled_page = initial_page \<lparr> tracking := True, maxScroll := 80, prevRoute := ''/'' \<rparr>"

text \<open>
  Local capture lists for the export: an event with a number and a string in its \<^verbatim>\<open>meta\<close>,
  and a list as the handlers build it, with a key that needs an escape, a click without a
  target, a scroll and a copy.
\<close>

definition noted_event :: MyActivityEvent where
  "noted_event =
     \<lparr> m_id = ''id-1'', m_type = Copy, m_label = ''c'', m_created_at = ''t'',
       m_meta = Some [(''n'', MNum (Fin (- 12))), (''s'', MStr ''x'')], m_icon = ''copy'' \<rparr>"


section \<open>Results\<close>

subsection \<open>Normalization keeps the identity fields\<close>

text \<open>
  C10. For every remote event, the event that \<^verbatim>\<open>normalizeEvent\<close> returns carries the
  input's \<^verbatim>\<open>id\<close>, \<^verbatim>\<open>type\<close> and \<^verbatim>\<open>created_at\<close> unchanged, in each of the nine category
  branches and in the default branch.
\<close>

theorem normalizeEvent_identity_fields:
  "n_id (normalizeEvent e) = e_id e
   \<and> n_type (normalizeEvent e) = e_type e
   \<and> n_created_at (normalizeEvent e) = e_created_at e"
  by (simp add: normalizeEvent_def Let_def)

subsection \<open>Merging by identifier\<close>

lemma map_fst_own_assign:
  "map fst (own_assign acc k v) = (if k \<in> fst ` set acc then map fst acc else map fst acc @ [k])"
  by (induction acc) (auto simp: own_assign_def split: prod.splits)

lemma keys_own_assign: "set (map fst (own_assign acc k v)) = insert k (set (map fst acc))"
  by (auto simp: map_fst_own_assign)

lemma distinct_own_assign: "distinct (map fst acc) \<Longrightarrow> distinct (map fst (own_assign acc k v))"
  by (simp add: map_fst_own_assign)

lemma map_of_overwrite:
  "map_of (map (\<lambda>(k', v'). if k' = k then (k', v) else (k', v')) acc) k'
     = (if k' = k then (if k \<in> fst ` set acc then Some v else None) else map_of acc k')"
  by (induction acc) (force simp: image_iff split: prod.splits)+

lemma map_of_own_assign: "map_of (own_assign acc k v) = (map_of acc)(k \<mapsto> v)"
proof (cases "k \<in> fst ` set acc")
  case True
  then show ?thesis by (auto simp: own_assign_def map_of_overwrite fun_eq_iff)
next
  case False
  then have "map_of acc k = None" by (simp add: map_of_eq_None_iff)
  with False show ?thesis
    by (auto simp: own_assign_def map_add_def fun_eq_iff split: option.splits)
qed

lemma keys_by_id: "set (map fst (by_id acc xs)) = set (map fst acc) \<union> e_id ` set xs"
  unfolding by_id_def
  by (induction xs arbitrary: acc) (auto simp: keys_own_assign simp del: set_map)

lemma distinct_by_id: "distinct (map fst acc) \<Longrightarrow> distinct (map fst (by_id acc xs))"
  unfolding by_id_def
  by (induction xs arbitrary: acc) (auto simp: distinct_own_assign)

lemma find_app:
  "find P (xs @ ys) = (case find P xs of None \<Rightarrow> find P ys | Some x \<Rightarrow> Some x)"
  by (induction xs) auto

lemma find_SomeD: "find P xs = Some v \<Longrightarrow> P v \<and> v \<in> set xs"
  by (induction xs) (auto split: if_splits)

lemma map_of_by_id:
  "map_of (by_id acc xs) k =
     (case find (\<lambda>x. e_id x = k) (rev xs) of Some e \<Rightarrow> Some e | None \<Rightarrow> map_of acc k)"
  unfolding by_id_def
proof (induction xs arbitrary: acc)
  case Nil
  then show ?case by simp
next
  case (Cons x xs)
  show ?case
    by (simp add: Cons.IH map_of_own_assign find_app split: option.splits)
qed

lemma find_rev_last:
  "find P (rev xs) = Some v \<Longrightarrow> v = last (filter P xs)"
  by (induction xs rule: rev_induct) (auto split: if_splits)

lemma entry_by_id:
  assumes "(k, v) \<in> set (by_id [] xs)"
  shows "e_id v = k \<and> v = last (filter (\<lambda>x. e_id x = k) xs) \<and> v \<in> set xs"
proof -
  have d: "distinct (map fst (by_id [] xs))" by (rule distinct_by_id) simp
  with assms have "map_of (by_id [] xs) k = Some v" by simp
  then have f: "find (\<lambda>x. e_id x = k) (rev xs) = Some v"
    by (simp add: map_of_by_id split: option.splits)
  then have "e_id v = k" "v \<in> set xs" by (auto dest: find_SomeD)
  with find_rev_last [OF f] show ?thesis by simp
qed

lemma set_Object_values: "set (Object_values obj) = snd ` set obj"
proof -
  have "{x \<in> set obj. array_index (fst x) \<noteq> None} \<union> {x \<in> set obj. array_index (fst x) = None}
        = set obj" by auto
  then show ?thesis
    by (simp add: Object_values_def image_Un [symmetric])
qed

lemma map_fst_Object_values:
  "distinct (map fst obj) \<Longrightarrow> \<forall>(k, v) \<in> set obj. g v = k
    \<Longrightarrow> distinct (map g (Object_values obj))"
proof -
  assume d: "distinct (map fst obj)" and g: "\<forall>(k, v) \<in> set obj. g v = k"
  let ?I = "filter (\<lambda>kv. array_index (fst kv) \<noteq> None) obj"
  let ?N = "filter (\<lambda>kv. array_index (fst kv) = None) obj"
  let ?S = "sort_key (\<lambda>kv. the (array_index (fst kv))) ?I"
  have eq: "map g (map snd xs) = map fst xs" if "set xs \<subseteq> set obj" for xs
    using that g by (induction xs) auto
  have dI: "distinct (map fst ?S)"
    using d by (simp add: distinct_map inj_on_def)
  have dN: "distinct (map fst ?N)"
    using d by (simp add: distinct_map_filter)
  have disj: "set (map fst ?S) \<inter> set (map fst ?N) = {}" by auto
  have "set ?S \<subseteq> set obj" "set ?N \<subseteq> set obj" by auto
  then have "map g (Object_values obj) = map fst ?S @ map fst ?N"
    unfolding Object_values_def map_append by (simp only: eq)
  with dI dN disj show ?thesis by simp
qed

lemma filter_Boolean_append: "filter_Boolean (xs @ ys) = filter_Boolean xs @ filter_Boolean ys"
  by (simp add: filter_Boolean_def List.map_filter_def)

lemma foldl_obj_assign:
  "foldl (\<lambda>acc e. obj_assign acc (e_id e) e) acc xs
     = by_id acc (filter (\<lambda>e. e_id e \<noteq> ''__proto__'') xs)"
  by (induction xs arbitrary: acc) (simp_all add: by_id_def obj_assign_def)

lemma merged_by_id:
  "merged u r = by_id [] (filter (\<lambda>e. e_id e \<noteq> ''__proto__'') (filter_Boolean (u @ r)))"
  by (simp add: merged_def foldl_obj_assign)

text \<open>
  C1. For every pair of event collections, none of whose identifiers is the text
  \<^verbatim>\<open>__proto__\<close>, merging them by identifier yields a collection in which every identifier
  occurs exactly once, whose identifiers are those of the two inputs together, and in which
  each entry is the last one of its identifier in the primary collection followed by the
  secondary one; so an identifier that occurs in the secondary collection keeps the
  secondary's entry.
\<close>

theorem merge_by_id:
  "(\<forall>e \<in> set (filter_Boolean u @ filter_Boolean r). e_id e \<noteq> ''__proto__'') \<longrightarrow>
   distinct (map e_id (merge_events u r))
   \<and> set (map e_id (merge_events u r))
       = e_id ` set (filter_Boolean u) \<union> e_id ` set (filter_Boolean r)
   \<and> (\<forall>e \<in> set (merge_events u r).
         e = last (filter (\<lambda>x. e_id x = e_id e) (filter_Boolean u @ filter_Boolean r)))
   \<and> (\<forall>e \<in> set (merge_events u r).
         e_id e \<in> e_id ` set (filter_Boolean r) \<longrightarrow> e \<in> set (filter_Boolean r))"
proof
  assume np: "\<forall>e \<in> set (filter_Boolean u @ filter_Boolean r). e_id e \<noteq> ''__proto__''"
  let ?xs = "filter_Boolean u @ filter_Boolean r"
  let ?obj = "by_id [] ?xs"
  have "filter (\<lambda>e. e_id e \<noteq> ''__proto__'') ?xs = ?xs"
    using np by (simp only: filter_True)
  then have m: "merge_events u r = Object_values ?obj"
    by (simp add: merge_events_def merged_by_id filter_Boolean_append)
  have ent: "\<forall>(k, v) \<in> set ?obj. e_id v = k"
    using entry_by_id by blast
  have d: "distinct (map fst ?obj)" by (rule distinct_by_id) simp
  have 1: "distinct (map e_id (merge_events u r))"
    unfolding m using d ent by (rule map_fst_Object_values)
  have "e_id ` snd ` set ?obj = fst ` set ?obj"
    using ent by (force simp: image_iff)
  also have "\<dots> = e_id ` set ?xs"
    using keys_by_id [of "[]" ?xs] by simp
  finally have 2: "set (map e_id (merge_events u r))
       = e_id ` set (filter_Boolean u) \<union> e_id ` set (filter_Boolean r)"
    by (simp add: m set_Object_values image_Un)
  have 3: "e = last (filter (\<lambda>x. e_id x = e_id e) ?xs)" if "e \<in> set (merge_events u r)" for e
  proof -
    from that obtain k where "(k, e) \<in> set ?obj"
      by (auto simp: m set_Object_values)
    from entry_by_id [OF this]
    have "e_id e = k" and "e = last (filter (\<lambda>x. e_id x = k) ?xs)" by blast+
    then show ?thesis by blast
  qed
  have 4: "e \<in> set (filter_Boolean r)"
    if "e \<in> set (merge_events u r)" "e_id e \<in> e_id ` set (filter_Boolean r)" for e
  proof -
    have ne: "filter (\<lambda>x. e_id x = e_id e) (filter_Boolean r) \<noteq> []"
      using that(2) by (auto simp: filter_empty_conv)
    have "e = last (filter (\<lambda>x. e_id x = e_id e) (filter_Boolean r))"
      using 3 [OF that(1)] ne by simp
    with ne show ?thesis
      by (metis last_in_set filter_is_subset subsetD)
  qed
  from 1 2 3 4 show "distinct (map e_id (merge_events u r))
   \<and> set (map e_id (merge_events u r))
       = e_id ` set (filter_Boolean u) \<union> e_id ` set (filter_Boolean r)
   \<and> (\<forall>e \<in> set (merge_events u r).
         e = last (filter (\<lambda>x. e_id x = e_id e) (filter_Boolean u @ filter_Boolean r)))
   \<and> (\<forall>e \<in> set (merge_events u r).
         e_id e \<in> e_id ` set (filter_Boolean r) \<longrightarrow> e \<in> set (filter_Boolean r))"
    by blast
qed

text \<open>
  The result at a sample: the identifier \<^verbatim>\<open>b\<close> occurs in both collections and the
  secondary's entry is kept; the array index \<^verbatim>\<open>7\<close> is listed first.
\<close>

lemma merge_events_sample:
  "merge_events sample_user sample_received =
     [sample_event ''7'' ''PushEvent'' ''2024-01-01T00:00:01Z'',
      sample_event ''b'' ''ForkEvent'' ''2023-12-31T23:59:59Z'']"
  by (simp add: merge_events_def merged_def obj_assign_def own_assign_def Object_values_def
        filter_Boolean_def
        List.map_filter_def array_index_def sample_event_def sample_user_def sample_received_def
        string_of_nat.simps digit_char_def)

theorem merge_by_id_witness:
  "merge_events sample_user sample_received =
     [sample_event ''7'' ''PushEvent'' ''2024-01-01T00:00:01Z'',
      sample_event ''b'' ''ForkEvent'' ''2023-12-31T23:59:59Z'']
   \<and> e_id (sample_event ''b'' ''ForkEvent'' ''2023-12-31T23:59:59Z'')
        \<in> e_id ` set (filter_Boolean sample_user) \<inter> e_id ` set (filter_Boolean sample_received)
   \<and> distinct (map e_id (merge_events sample_user sample_received))
   \<and> set (map e_id (merge_events sample_user sample_received)) = {''7'', ''b''}
   \<and> sample_event ''b'' ''ForkEvent'' ''2023-12-31T23:59:59Z'' \<in> set (filter_Boolean sample_received)"
  using merge_by_id [of sample_user sample_received] merge_events_sample
  by (simp add: filter_Boolean_def List.map_filter_def sample_event_def sample_user_def
        sample_received_def)

subsection \<open>Newest first\<close>

lemma set_insert_by: "set (insert_by cmp x ys) = insert x (set ys)"
  by (induction ys) auto

lemma set_js_sort: "set (js_sort cmp xs) = set xs"
  unfolding js_sort_def by (induction xs) (auto simp: set_insert_by)

lemma length_insert_by: "length (insert_by cmp x ys) = Suc (length ys)"
  by (induction ys) auto

lemma length_js_sort: "length (js_sort cmp xs) = length xs"
  unfolding js_sort_def by (induction xs) (auto simp: length_insert_by)

lemma time_ge_valid:
  "js_getTime P a = Some ta \<Longrightarrow> js_getTime P b = Some tb \<Longrightarrow> time_ge P a b = (ta \<ge> tb)"
  by (simp add: time_ge_def)

lemma compare_desc_valid:
  "js_getTime P a = Some ta \<Longrightarrow> js_getTime P b = Some tb \<Longrightarrow> compare_desc P a b = tb - ta"
  by (simp add: compare_desc_def)

lemma sorted_insert_by:
  assumes "\<forall>y \<in> insert x (set ys). js_getTime P (k y) \<noteq> None"
    and "sorted_wrt (\<lambda>a b. time_ge P (k a) (k b)) ys"
  shows "sorted_wrt (\<lambda>a b. time_ge P (k a) (k b))
           (insert_by (\<lambda>a b. compare_desc P (k a) (k b)) x ys)"
  using assms
proof (induction ys)
  case Nil
  then show ?case by simp
next
  case (Cons y ys)
  from Cons.prems(1) obtain tx ty where tx: "js_getTime P (k x) = Some tx"
    and ty: "js_getTime P (k y) = Some ty" by auto
  show ?case
  proof (cases "compare_desc P (k x) (k y) \<le> 0")
    case True
    then have xy: "tx \<ge> ty" using tx ty by (simp add: compare_desc_valid)
    have "time_ge P (k x) (k z)" if "z \<in> set (y # ys)" for z
    proof -
      from Cons.prems(1) that obtain tz where tz: "js_getTime P (k z) = Some tz" by auto
      have "ty \<ge> tz"
      proof (cases "z = y")
        case True with ty tz show ?thesis by simp
      next
        case False
        with that Cons.prems(2) have "time_ge P (k y) (k z)" by auto
        with ty tz show ?thesis by (simp add: time_ge_valid)
      qed
      with xy tx tz show ?thesis by (simp add: time_ge_valid)
    qed
    with True Cons.prems(2) show ?thesis by simp
  next
    case False
    then have yx: "ty \<ge> tx" using tx ty by (simp add: compare_desc_valid)
    have IH: "sorted_wrt (\<lambda>a b. time_ge P (k a) (k b))
           (insert_by (\<lambda>a b. compare_desc P (k a) (k b)) x ys)"
      using Cons.IH Cons.prems by auto
    have "time_ge P (k y) (k z)" if "z \<in> insert x (set ys)" for z
      using that Cons.prems(2) yx tx ty by (auto simp: time_ge_valid)
    with False IH show ?thesis by (simp add: set_insert_by)
  qed
qed

lemma sorted_js_sort:
  assumes "\<forall>y \<in> set xs. js_getTime P (k y) \<noteq> None"
  shows "sorted_wrt (\<lambda>a b. time_ge P (k a) (k b)) (js_sort (\<lambda>a b. compare_desc P (k a) (k b)) xs)"
  using assms
proof (induction xs)
  case Nil
  then show ?case by (simp add: js_sort_def)
next
  case (Cons x xs)
  have "sorted_wrt (\<lambda>a b. time_ge P (k a) (k b))
          (insert_by (\<lambda>a b. compare_desc P (k a) (k b)) x
             (js_sort (\<lambda>a b. compare_desc P (k a) (k b)) xs))"
    using Cons by (intro sorted_insert_by) (auto simp: set_js_sort)
  then show ?case by (simp add: js_sort_def)
qed


lemma n_created_at_normalizeEvent: "n_created_at (normalizeEvent e) = e_created_at e"
  by (simp add: normalizeEvent_def Let_def)

lemma sorted_normalized:
  assumes "\<forall>e \<in> set vs. js_getTime P (e_created_at e) \<noteq> None"
  shows "sorted_wrt (\<lambda>a b. time_ge P (n_created_at a) (n_created_at b)) (normalized P vs)"
  unfolding normalized_def
  using assms by (intro sorted_js_sort) (auto simp: n_created_at_normalizeEvent)

lemma sorted_unified:
  assumes "\<forall>e \<in> set (case gh st of None \<Rightarrow> [] | Some g \<Rightarrow> events g).
             js_getTime P (n_created_at e) \<noteq> None"
    and "\<forall>e \<in> set (myEvents st). js_getTime P (m_created_at e) \<noteq> None"
  shows "sorted_wrt (\<lambda>a b. time_ge P (created_at a) (created_at b)) (unified P st)"
  unfolding unified_def Let_def
  using assms by (intro sorted_js_sort) (auto split: option.splits)

lemma GET_try_feed:
  "GET_try P fetch req = Inr res \<Longrightarrow> res_body res = FeedBody evs r
    \<Longrightarrow> \<exists>u v. evs = normalized P (merge_events u v)"
  unfolding GET_try_def NextResponse_json_def Let_def
  by (auto split: if_splits fetch_outcome.splits sum.splits option.splits) blast+

lemma GET_feed:
  "res_body (GET P fetch req) = FeedBody evs r \<Longrightarrow> \<exists>u v. evs = normalized P (merge_events u v)"
  unfolding GET_def
  by (auto split: if_splits sum.splits dest: GET_try_feed)

lemma set_normalized: "set (normalized P vs) = normalizeEvent ` set vs"
  by (simp add: normalized_def set_js_sort)

text \<open>
  C2. For every list of events, the list that the server's normalize-and-sort step returns
  (and so the list of a feed response), and likewise the unified view that the presenter
  computes from the remote snapshot and the local capture list, is ordered non-increasingly
  by time value: every element's time value is greater than or equal to that of every later
  element. An event's \<^verbatim>\<open>created_at\<close> is the text of a date, which is the hypothesis: on a
  text that is no date the time value is \<^verbatim>\<open>NaN\<close>, which no comparison orders.
\<close>

theorem sorted_newest_first:
  "((\<forall>e \<in> set vs. js_getTime P (e_created_at e) \<noteq> None) \<longrightarrow>
      sorted_wrt (\<lambda>a b. time_ge P (n_created_at a) (n_created_at b)) (normalized P vs))
   \<and> (res_body (GET P fetch req) = FeedBody evs r
        \<and> (\<forall>e \<in> set evs. js_getTime P (n_created_at e) \<noteq> None) \<longrightarrow>
      sorted_wrt (\<lambda>a b. time_ge P (n_created_at a) (n_created_at b)) evs)
   \<and> ((\<forall>e \<in> set (case gh st of None \<Rightarrow> [] | Some g \<Rightarrow> events g).
          js_getTime P (n_created_at e) \<noteq> None)
        \<and> (\<forall>e \<in> set (myEvents st). js_getTime P (m_created_at e) \<noteq> None) \<longrightarrow>
      sorted_wrt (\<lambda>a b. time_ge P (created_at a) (created_at b)) (unified P st))"
proof (intro conjI impI)
  assume "\<forall>e \<in> set vs. js_getTime P (e_created_at e) \<noteq> None"
  then show "sorted_wrt (\<lambda>a b. time_ge P (n_created_at a) (n_created_at b)) (normalized P vs)"
    by (rule sorted_normalized)
next
  assume a: "res_body (GET P fetch req) = FeedBody evs r
        \<and> (\<forall>e \<in> set evs. js_getTime P (n_created_at e) \<noteq> None)"
  then obtain u v where e: "evs = normalized P (merge_events u v)"
    using GET_feed by blast
  with a have "\<forall>e \<in> set (merge_events u v). js_getTime P (e_created_at e) \<noteq> None"
    by (auto simp: set_normalized n_created_at_normalizeEvent)
  then show "sorted_wrt (\<lambda>a b. time_ge P (n_created_at a) (n_created_at b)) evs"
    unfolding e by (rule sorted_normalized)
next
  assume "(\<forall>e \<in> set (case gh st of None \<Rightarrow> [] | Some g \<Rightarrow> events g).
          js_getTime P (n_created_at e) \<noteq> None)
        \<and> (\<forall>e \<in> set (myEvents st). js_getTime P (m_created_at e) \<noteq> None)"
  then show "sorted_wrt (\<lambda>a b. time_ge P (created_at a) (created_at b)) (unified P st)"
    using sorted_unified by blast
qed

lemma getTime_samples:
  "js_getTime ref_platform ''2024-01-01T00:00:00Z'' = Some 1704067200000"
  "js_getTime ref_platform ''2024-01-01T00:00:01Z'' = Some 1704067201000"
  "js_getTime ref_platform ''2024-01-01T00:00:02Z'' = Some 1704067202000"
  "js_getTime ref_platform ''2024-01-01T00:00:00.000Z'' = Some 1704067200000"
  "js_getTime ref_platform ''2024-01-01T00:00:00.500Z'' = Some 1704067200500"
  "js_getTime ref_platform ''2024-01-01T00:00:01.000Z'' = Some 1704067201000"
  "js_getTime ref_platform ''2024-01-01T00:00:01.500Z'' = Some 1704067201500"
  by (simp_all add: ref_platform_def getTime_iso_def iso_seconds_def days_from_civil_def
        days_in_month_def)

lemma normalized_sample:
  "normalized ref_platform sample_values =
     [normalizeEvent (sample_event ''b'' ''ForkEvent'' ''2024-01-01T00:00:02Z''),
      normalizeEvent (sample_event ''a'' ''WatchEvent'' ''2024-01-01T00:00:01Z''),
      normalizeEvent (sample_event ''c'' ''PushEvent'' ''2024-01-01T00:00:00Z'')]"
  by (simp add: normalized_def js_sort_def sample_values_def compare_desc_def
        n_created_at_normalizeEvent getTime_samples sample_event_def)

lemma unified_sample:
  "unified ref_platform sample_page =
     [Github (normalizeEvent (sample_event ''b'' ''ForkEvent'' ''2024-01-01T00:00:02Z'')),
      Local (sample_local ''id-2'' ''2024-01-01T00:00:01.500Z''),
      Github (normalizeEvent (sample_event ''a'' ''WatchEvent'' ''2024-01-01T00:00:01Z'')),
      Local (sample_local ''id-1'' ''2024-01-01T00:00:00.500Z''),
      Github (normalizeEvent (sample_event ''c'' ''PushEvent'' ''2024-01-01T00:00:00Z''))]"
  by (simp add: unified_def sample_page_def initial_page_def normalized_sample js_sort_def
        compare_desc_def n_created_at_normalizeEvent getTime_samples sample_event_def
        sample_local_def onCopy_def)


lemma merge_events_sample_values: "merge_events (map Some sample_values) [] = sample_values"
  by (simp add: merge_events_def merged_def obj_assign_def own_assign_def Object_values_def
        filter_Boolean_def
        List.map_filter_def array_index_def sample_event_def sample_values_def)

lemma fetch_by_endpoint_simps:
  "fetch_by_endpoint a b \<lparr> g_url = userEventsUrl P req, g_headers = hs \<rparr> = a"
  "fetch_by_endpoint a b \<lparr> g_url = receivedUrl P req, g_headers = hs \<rparr> = b"
  by (simp_all add: fetch_by_endpoint_def userEventsUrl_def receivedUrl_def)

lemma GET_sample:
  "GET ref_platform
     (fetch_by_endpoint
        (Resolved (sample_response 200 [] '''' (Inr (map Some sample_values))))
        (Rejected ''not called''))
     (sample_request \<lparr> q_includeReceived := None \<rparr>)
   = \<lparr> res_status = 200,
       res_body = FeedBody (normalized ref_platform sample_values) no_rate \<rparr>"
  by (simp add: GET_def GET_try_def fetch_by_endpoint_simps sample_request_def
        sample_response_def ok_def NextResponse_json_def null_body_status_def rate_of_def
        rate_counter_def no_rate_def merge_events_sample_values)

text \<open>
  The order at a sample: time values \<open>T + 1, T + 2, T\<close> come out as \<open>T + 2, T + 1, T\<close>, and
  the unified view interleaves the two sources by time.
\<close>

theorem sorted_newest_first_witness:
  "map n_created_at (normalized ref_platform sample_values)
     = [''2024-01-01T00:00:02Z'', ''2024-01-01T00:00:01Z'', ''2024-01-01T00:00:00Z'']
   \<and> sorted_wrt (\<lambda>a b. time_ge ref_platform (n_created_at a) (n_created_at b))
         (normalized ref_platform sample_values)
   \<and> res_body
        (GET ref_platform
           (fetch_by_endpoint
              (Resolved (sample_response 200 [] '''' (Inr (map Some sample_values))))
              (Rejected ''not called''))
           (sample_request \<lparr> q_includeReceived := None \<rparr>))
       = FeedBody (normalized ref_platform sample_values) no_rate
   \<and> map created_at (unified ref_platform sample_page)
     = [''2024-01-01T00:00:02Z'', ''2024-01-01T00:00:01.500Z'', ''2024-01-01T00:00:01Z'',
        ''2024-01-01T00:00:00.500Z'', ''2024-01-01T00:00:00Z'']
   \<and> sorted_wrt (\<lambda>a b. time_ge ref_platform (created_at a) (created_at b))
         (unified ref_platform sample_page)"
proof -
  let ?fetch = "fetch_by_endpoint
              (Resolved (sample_response 200 [] '''' (Inr (map Some sample_values))))
              (Rejected ''not called'')"
  let ?req = "sample_request \<lparr> q_includeReceived := None \<rparr>"
  have v: "\<forall>e \<in> set sample_values. js_getTime ref_platform (e_created_at e) \<noteq> None"
    by (simp add: sample_values_def sample_event_def getTime_samples)
  have b: "res_body (GET ref_platform ?fetch ?req)
             = FeedBody (normalized ref_platform sample_values) no_rate"
    by (simp add: GET_sample)
  have n: "\<forall>e \<in> set (normalized ref_platform sample_values).
             js_getTime ref_platform (n_created_at e) \<noteq> None"
    by (simp add: normalized_sample n_created_at_normalizeEvent sample_event_def getTime_samples)
  have g: "\<forall>e \<in> set (case gh sample_page of None \<Rightarrow> [] | Some g \<Rightarrow> events g).
             js_getTime ref_platform (n_created_at e) \<noteq> None"
    using n by (simp add: sample_page_def initial_page_def)
  have l: "\<forall>e \<in> set (myEvents sample_page). js_getTime ref_platform (m_created_at e) \<noteq> None"
    by (simp add: sample_page_def initial_page_def sample_local_def onCopy_def getTime_samples)
  note t = sorted_newest_first
    [of sample_values ref_platform ?fetch ?req "normalized ref_platform sample_values" no_rate
        sample_page]
  from t v b n have 1: "sorted_wrt (\<lambda>a b. time_ge ref_platform (n_created_at a) (n_created_at b))
         (normalized ref_platform sample_values)" by blast
  from t g l have 2: "sorted_wrt (\<lambda>a b. time_ge ref_platform (created_at a) (created_at b))
         (unified ref_platform sample_page)" by blast
  have 3: "map n_created_at (normalized ref_platform sample_values)
     = [''2024-01-01T00:00:02Z'', ''2024-01-01T00:00:01Z'', ''2024-01-01T00:00:00Z'']"
    by (simp add: normalized_sample n_created_at_normalizeEvent sample_event_def)
  have 4: "map created_at (unified ref_platform sample_page)
     = [''2024-01-01T00:00:02Z'', ''2024-01-01T00:00:01.500Z'', ''2024-01-01T00:00:01Z'',
        ''2024-01-01T00:00:00.500Z'', ''2024-01-01T00:00:00Z'']"
    by (simp add: unified_sample n_created_at_normalizeEvent sample_event_def sample_local_def
          onCopy_def)
  from 1 2 3 4 b show ?thesis by blast
qed


subsection \<open>The handler's responses\<close>

lemma GET_try_secondary_not_ok:
  assumes "q_includeReceived req = Some ''1''"
    and "fetch \<lparr> g_url = userEventsUrl P req, g_headers = upstream_headers req \<rparr> = Resolved userRes"
    and "ok userRes" and "r_json userRes = Inr userEvents"
    and "fetch \<lparr> g_url = receivedUrl P req, g_headers = upstream_headers req \<rparr> = Resolved receivedRes"
    and "\<not> ok receivedRes"
  shows "GET_try P fetch req =
           Inr \<lparr> res_status = 200,
                 res_body = FeedBody (normalized P (merge_events userEvents [])) (rate_of P userRes) \<rparr>"
  using assms by (simp add: GET_try_def NextResponse_json_def null_body_status_def)

lemma GET_try_secondary_rejected:
  assumes "q_includeReceived req = Some ''1''"
    and "fetch \<lparr> g_url = userEventsUrl P req, g_headers = upstream_headers req \<rparr> = Resolved userRes"
    and "fetch \<lparr> g_url = receivedUrl P req, g_headers = upstream_headers req \<rparr> = Rejected m"
  shows "GET_try P fetch req = Inl m"
  using assms by (simp add: GET_try_def)

text \<open>
  C3, as amended. For every request with a username that asks for the received events and
  whose primary call resolves with a success status and a body that parses: when the
  secondary call resolves with a status that is no success, the response has status 200 and
  its events are those of the primary collection alone; when the secondary call rejects, the
  rejection reaches the handler's \<^verbatim>\<open>catch\<close> and the response has status 500 with the
  rejection's message.
\<close>

theorem secondary_failure:
  "truthy_str (q_username req) \<and> q_includeReceived req = Some ''1''
   \<and> fetch \<lparr> g_url = userEventsUrl P req, g_headers = upstream_headers req \<rparr> = Resolved userRes
   \<and> ok userRes \<and> r_json userRes = Inr userEvents
   \<longrightarrow>
     (\<forall>receivedRes.
        fetch \<lparr> g_url = receivedUrl P req, g_headers = upstream_headers req \<rparr> = Resolved receivedRes
        \<and> \<not> ok receivedRes
        \<longrightarrow> GET P fetch req =
              \<lparr> res_status = 200,
                res_body = FeedBody (normalized P (merge_events userEvents []))
                             (rate_of P userRes) \<rparr>)
     \<and> (\<forall>m.
        fetch \<lparr> g_url = receivedUrl P req, g_headers = upstream_headers req \<rparr> = Rejected m
        \<longrightarrow> GET P fetch req =
              \<lparr> res_status = 500, res_body = ErrorBody (or_str (Some m) ''Failed'') \<rparr>)"
  by (auto simp: GET_def GET_try_secondary_not_ok GET_try_secondary_rejected)

lemma sample_request_simps:
  "truthy_str (q_username sample_request)" "q_includeReceived sample_request = Some ''1''"
  by (simp_all add: sample_request_def)

lemma sample_response_simps:
  "ok (sample_response st hs t j) = (200 \<le> st \<and> st \<le> 299)"
  "r_json (sample_response st hs t j) = j"
  "r_text (sample_response st hs t j) = t"
  "r_status (sample_response st hs t j) = st"
  "r_headers (sample_response st hs t j) = map_of hs"
  by (simp_all add: sample_response_def ok_def)

theorem secondary_failure_witness:
  "GET ref_platform
     (fetch_by_endpoint
        (Resolved (sample_response 200 [] '''' (Inr (map Some sample_values))))
        (Resolved (sample_response 503 [] ''unavailable'' (Inl ''Unexpected token''))))
     sample_request
   = \<lparr> res_status = 200, res_body = FeedBody (normalized ref_platform sample_values) no_rate \<rparr>
   \<and> GET ref_platform
     (fetch_by_endpoint
        (Resolved (sample_response 200 [] '''' (Inr (map Some sample_values))))
        (Rejected ''fetch failed''))
     sample_request
   = \<lparr> res_status = 500, res_body = ErrorBody ''fetch failed'' \<rparr>"
  using
    secondary_failure
      [of sample_request
          "fetch_by_endpoint
             (Resolved (sample_response 200 [] '''' (Inr (map Some sample_values))))
             (Resolved (sample_response 503 [] ''unavailable'' (Inl ''Unexpected token'')))"
          ref_platform "sample_response 200 [] '''' (Inr (map Some sample_values))"
          "map Some sample_values"]
    secondary_failure
      [of sample_request
          "fetch_by_endpoint
             (Resolved (sample_response 200 [] '''' (Inr (map Some sample_values))))
             (Rejected ''fetch failed'')"
          ref_platform "sample_response 200 [] '''' (Inr (map Some sample_values))"
          "map Some sample_values"]
  by (simp add: sample_request_simps sample_response_simps fetch_by_endpoint_simps
        merge_events_sample_values rate_of_def rate_counter_def no_rate_def or_str_def)

text \<open>
  C3 as stated, for any failure of the secondary call, fails: when the call rejects, as it
  does on a network failure, \<^verbatim>\<open>Promise.all\<close> rejects and the response has status 500,
  although the primary call succeeded.
\<close>

theorem secondary_rejection_counterexample:
  "ok (sample_response 200 [] '''' (Inr (map Some sample_values)))
   \<and> res_status
       (GET ref_platform
          (fetch_by_endpoint
             (Resolved (sample_response 200 [] '''' (Inr (map Some sample_values))))
             (Rejected ''fetch failed''))
          sample_request) = 500
   \<and> res_body
       (GET ref_platform
          (fetch_by_endpoint
             (Resolved (sample_response 200 [] '''' (Inr (map Some sample_values))))
             (Rejected ''fetch failed''))
          sample_request) = ErrorBody ''fetch failed''"
  by (simp add: GET_def GET_try_def sample_request_simps sample_response_simps
        fetch_by_endpoint_simps or_str_def)

lemma GET_try_primary_not_ok:
  assumes "fetch \<lparr> g_url = userEventsUrl P req, g_headers = upstream_headers req \<rparr> = Resolved userRes"
    and "\<not> ok userRes"
    and "q_includeReceived req = Some ''1'' \<longrightarrow>
           (\<exists>r. fetch \<lparr> g_url = receivedUrl P req, g_headers = upstream_headers req \<rparr> = Resolved r)"
  shows "GET_try P fetch req =
           NextResponse_json P (ErrorBody (or_str (Some (r_text userRes)) ''GitHub error''))
             (r_status userRes)"
  using assms by (auto simp: GET_try_def)

text \<open>
  C6, as amended. For every request with a username whose primary call resolves with a status
  that is no success, provided the secondary call, when the request asks for it, does not
  reject: the response has exactly the upstream status (a status from 300 to 599 other than
  304, with which a response may carry a body), and the \<^verbatim>\<open>error\<close> field of its body is the
  upstream body text when that text is not empty, and \<^verbatim>\<open>GitHub error\<close> when it is.
\<close>

theorem upstream_error_passed_through:
  "truthy_str (q_username req)
   \<and> fetch \<lparr> g_url = userEventsUrl P req, g_headers = upstream_headers req \<rparr> = Resolved userRes
   \<and> \<not> ok userRes
   \<and> 300 \<le> r_status userRes \<and> r_status userRes \<le> 599 \<and> r_status userRes \<noteq> 304
   \<and> (q_includeReceived req = Some ''1'' \<longrightarrow>
        (\<exists>r. fetch \<lparr> g_url = receivedUrl P req, g_headers = upstream_headers req \<rparr> = Resolved r))
   \<longrightarrow> GET P fetch req =
         \<lparr> res_status = r_status userRes,
           res_body = ErrorBody (if r_text userRes = [] then ''GitHub error'' else r_text userRes) \<rparr>"
proof (intro impI, elim conjE)
  assume u: "truthy_str (q_username req)"
    and f: "fetch \<lparr> g_url = userEventsUrl P req, g_headers = upstream_headers req \<rparr> = Resolved userRes"
    and n: "\<not> ok userRes"
    and s: "300 \<le> r_status userRes" "r_status userRes \<le> 599" "r_status userRes \<noteq> 304"
    and r: "q_includeReceived req = Some ''1'' \<longrightarrow>
        (\<exists>r. fetch \<lparr> g_url = receivedUrl P req, g_headers = upstream_headers req \<rparr> = Resolved r)"
  have "GET_try P fetch req =
           NextResponse_json P (ErrorBody (or_str (Some (r_text userRes)) ''GitHub error''))
             (r_status userRes)"
    using f n r by (rule GET_try_primary_not_ok)
  moreover have "\<not> null_body_status (r_status userRes)"
    using s by (auto simp: null_body_status_def)
  ultimately show "GET P fetch req =
         \<lparr> res_status = r_status userRes,
           res_body = ErrorBody (if r_text userRes = [] then ''GitHub error'' else r_text userRes) \<rparr>"
    using u s by (simp add: GET_def NextResponse_json_def or_str_def)
qed

theorem upstream_error_passed_through_witness:
  "GET ref_platform
     (fetch_by_endpoint
        (Resolved (sample_response 404 [] ''Not Found'' (Inl ''Unexpected token'')))
        (Resolved (sample_response 404 [] ''Not Found'' (Inl ''Unexpected token''))))
     sample_request
   = \<lparr> res_status = 404, res_body = ErrorBody ''Not Found'' \<rparr>"
  using upstream_error_passed_through
      [of sample_request
          "fetch_by_endpoint
             (Resolved (sample_response 404 [] ''Not Found'' (Inl ''Unexpected token'')))
             (Resolved (sample_response 404 [] ''Not Found'' (Inl ''Unexpected token'')))"
          ref_platform "sample_response 404 [] ''Not Found'' (Inl ''Unexpected token'')"]
  by (simp add: sample_request_simps sample_response_simps fetch_by_endpoint_simps)

text \<open>
  C6 as stated, for every request, fails in two ways. An upstream 404 with an empty body is
  answered with the text \<^verbatim>\<open>GitHub error\<close>, which is not the upstream text; and when the
  secondary call rejects, an upstream 404 of the primary call is answered with status 500.
\<close>

theorem upstream_error_counterexample:
  "GET ref_platform
     (fetch_by_endpoint
        (Resolved (sample_response 404 [] '''' (Inl ''Unexpected end of JSON input'')))
        (Resolved (sample_response 404 [] '''' (Inl ''Unexpected end of JSON input''))))
     sample_request
   = \<lparr> res_status = 404, res_body = ErrorBody ''GitHub error'' \<rparr>
   \<and> ErrorBody ''GitHub error''
       \<noteq> ErrorBody (r_text (sample_response 404 [] '''' (Inl ''Unexpected end of JSON input'')))
   \<and> GET ref_platform
     (fetch_by_endpoint
        (Resolved (sample_response 404 [] ''Not Found'' (Inl ''Unexpected token'')))
        (Rejected ''fetch failed''))
     sample_request
   = \<lparr> res_status = 500, res_body = ErrorBody ''fetch failed'' \<rparr>
   \<and> r_status (sample_response 404 [] ''Not Found'' (Inl ''Unexpected token'')) = 404"
  by (simp add: GET_def GET_try_def sample_request_simps sample_response_simps
        fetch_by_endpoint_simps NextResponse_json_def null_body_status_def or_str_def)

subsection \<open>The rate-limit counters\<close>

text \<open>
  What the code does for one counter: it is present with the header's number when the
  header is present, not empty, and its number is neither \<^verbatim>\<open>NaN\<close> nor zero.
\<close>

lemma rate_counter_present:
  "rate_counter P h = Some n \<longleftrightarrow>
     (\<exists>s. h = Some s \<and> s \<noteq> [] \<and> js_Number P s = n \<and> truthy_number n)"
  by (auto simp: rate_counter_def split: option.splits)

lemma rate_counter_zero:
  "js_Number P s = Fin 0 \<Longrightarrow> rate_counter P (Some s) = None"
  by (simp add: rate_counter_def)

lemma Number_dec_samples:
  "js_Number ref_platform ''0'' = Fin 0"
  "js_Number ref_platform ''30'' = Fin 30"
  "js_Number ref_platform ''60'' = Fin 60"
  "js_Number ref_platform ''1000'' = Fin 1000"
  "js_Number ref_platform ''1704067200'' = Fin 1704067200"
  by (simp_all add: ref_platform_def Number_dec_def)

text \<open>
  C4. The claim asks that a counter be present with the number of its header whenever the
  header is present and numeric. The code drops a counter whose header is \<^verbatim>\<open>0\<close>: a
  successful response with \<^verbatim>\<open>x-ratelimit-remaining: 0\<close> is answered without \<^verbatim>\<open>remaining\<close>,
  while \<^verbatim>\<open>limit\<close> and \<^verbatim>\<open>reset\<close> are there.
\<close>

theorem rate_remaining_zero_dropped:
  "GET ref_platform (fetch_by_endpoint (Resolved exhausted_response) (Rejected ''not called''))
     (sample_request \<lparr> q_includeReceived := None \<rparr>)
   = \<lparr> res_status = 200,
       res_body = FeedBody []
         \<lparr> rate_limit = Some (Fin 60), rate_remaining = None,
           rate_reset = Some (Fin 1704067200) \<rparr> \<rparr>"
  by (simp add: GET_def GET_try_def fetch_by_endpoint_simps sample_request_def
        exhausted_response_def sample_response_simps NextResponse_json_def null_body_status_def
        rate_of_def rate_counter_def Number_dec_samples merge_events_def merged_def
        filter_Boolean_def List.map_filter_def Object_values_def normalized_def js_sort_def)

subsection \<open>The page size\<close>









subsection \<open>The cap of the local capture list\<close>

lemma add_take: "add e prev = take 2000 (e # prev)"
  by (simp add: add_def)

lemma length_add: "length (add e prev) = min 2000 (Suc (length prev))"
  by (simp add: add_def)

lemma length_add_le: "length (add e prev) \<le> 2000"
  by (simp add: add_def)

lemma route_effect_adds:
  "prevRoute st \<noteq> [] \<Longrightarrow> tracking st \<Longrightarrow>
     length (myEvents (route_effect pathname search s st)) = Suc (length (myEvents st))"
  by (simp add: route_effect_def)

lemma handle_capped:
  "myEvents (handle ev s st) \<noteq> myEvents st \<Longrightarrow> length (myEvents (handle ev s st)) \<le> 2000"
  by (cases ev) (auto simp: length_add_le onScroll_def split: if_splits)

text \<open>
  C5. The claim asks that after every operation that adds an event, route changes included,
  the list hold at most 2000 entries. The handlers of the window's events add through
  \<open>add\<close>, which cuts the list to 2000; the effect that records a route change prepends its
  event without the cut. On a capturing page whose list holds 2000 entries, a copy event
  leaves 2000 entries and a route change leaves 2001.
\<close>

theorem route_change_exceeds_cap:
  "length (myEvents (handle CopyEv sample_stamp full_page)) = 2000
   \<and> length (myEvents (navigate ''/about'' None sample_stamp full_page)) = 2001"
  by (simp add: navigate_def route_effect_def full_page_def initial_page_def add_def)

subsection \<open>The scroll watermark\<close>

lemma tracking_handle: "tracking (handle ev s st) = tracking st"
  by (cases ev) (auto simp: onScroll_def split: prod.splits option.splits)

lemma maxScroll_handle:
  "maxScroll (handle ev s st) =
     (case ev of
        ScrollEv d p \<Rightarrow> if tracking st then max (maxScroll st) d else maxScroll st
      | _ \<Rightarrow> maxScroll st)"
  by (cases ev) (auto simp: onScroll_def)

lemma Max_insert_max:
  "finite S \<Longrightarrow> Max (insert (max a b) S) = Max (insert a (insert b S))"
  for a b :: int
proof (cases "S = {}")
  case True
  then show ?thesis by simp
next
  case False
  assume "finite S"
  with False show ?thesis by (simp add: max.assoc)
qed

lemma tracking_step: "tracking (step P a s st) = tracking st"
  by (cases a)
     (auto simp: tracking_handle navigate_def route_effect_def onImport_def clearLocal_def
           split: option.splits)

lemma maxScroll_step:
  "maxScroll (step P a s st) =
     (case a of
        Dom (ScrollEv d p) \<Rightarrow> if tracking st then max (maxScroll st) d else maxScroll st
      | _ \<Rightarrow> maxScroll st)"
proof (cases a)
  case (Dom ev)
  then show ?thesis by (cases ev) (simp_all add: maxScroll_handle del: handle.simps)
qed (auto simp: navigate_def route_effect_def onImport_def clearLocal_def split: option.splits)

lemma scroll_depths_Cons:
  "scroll_depths ((a, s) # as) =
     (case a of Dom (ScrollEv d p) \<Rightarrow> d # scroll_depths as | _ \<Rightarrow> scroll_depths as)"
proof (cases a)
  case (Dom ev)
  then show ?thesis by (cases ev) simp_all
qed simp_all

lemma run_Cons: "run P ((a, s) # as) st = run P as (step P a s st)"
  by (simp add: run_def)

lemma run_Nil: "run P [] st = st"
  by (simp add: run_def)

lemma tracking_run: "tracking (run P as st) = tracking st"
proof (induction as arbitrary: st)
  case Nil
  show ?case by (simp only: run_Nil)
next
  case (Cons x as)
  obtain a s where x: "x = (a, s)" by (cases x)
  show ?case unfolding x run_Cons Cons.IH tracking_step ..
qed

lemma maxScroll_run:
  "tracking st \<Longrightarrow> maxScroll (run P as st) = Max (insert (maxScroll st) (set (scroll_depths as)))"
proof (induction as arbitrary: st)
  case Nil
  then show ?case by (simp add: run_Nil)
next
  case (Cons x as)
  obtain a s where x: "x = (a, s)" by (cases x)
  have t: "tracking (step P a s st)" using Cons.prems by (simp add: tracking_step)
  have r: "run P (x # as) st = run P as (step P a s st)" using x by (simp add: run_Cons)
  note IH = Cons.IH [OF t]
  show ?case
  proof (cases "\<exists>d p. a = Dom (ScrollEv d p)")
    case True
    then obtain d p where a: "a = Dom (ScrollEv d p)" by blast
    have h: "maxScroll (step P a s st) = max (maxScroll st) d"
      using Cons.prems unfolding maxScroll_step a by simp
    have sd: "scroll_depths (x # as) = d # scroll_depths as"
      unfolding x scroll_depths_Cons a by simp
    have "maxScroll (run P (x # as) st)
            = Max (insert (max (maxScroll st) d) (set (scroll_depths as)))"
      unfolding r IH h ..
    also have "\<dots> = Max (insert (maxScroll st) (insert d (set (scroll_depths as))))"
      by (rule Max_insert_max) simp
    finally show ?thesis unfolding sd by simp
  next
    case False
    have h: "maxScroll (step P a s st) = maxScroll st"
      unfolding maxScroll_step using False
      by (auto split: action.splits dom_event.splits)
    have sd: "scroll_depths (x # as) = scroll_depths as"
      unfolding x scroll_depths_Cons using False
      by (auto split: action.splits dom_event.splits)
    show ?thesis unfolding r IH h sd ..
  qed
qed

lemma onScroll_emits: "fst (onScroll d p s m) \<noteq> None \<longleftrightarrow> m < d"
  by (simp add: onScroll_def)

lemma tracking_setTracking: "tracking (setTracking v pathname search s st) = v"
  by (simp add: setTracking_def route_effect_def tracking_effect_def)

lemma maxScroll_setTracking_on:
  "\<not> tracking st \<Longrightarrow> maxScroll (setTracking True pathname search s st) = 0"
  by (simp add: setTracking_def route_effect_def tracking_effect_def)

text \<open>
  C9. In a capturing session, which starts when capture is switched on, the scroll handler
  adds an event exactly when the depth exceeds the greatest depth that the session has seen
  so far (and zero): the watermark after any run of events is that maximum. Switching
  capture off and on again starts a session whose watermark is zero, whatever the watermark
  was before, so that any depth above zero is recorded again.
\<close>

theorem scroll_watermark:
  "(\<not> tracking st \<longrightarrow>
      (let st1 = run P evs (setTracking True pathname search s0 st)
       in maxScroll st1 = Max (insert 0 (set (scroll_depths evs)))
          \<and> (fst (onScroll d p s (maxScroll st1)) \<noteq> None
               \<longleftrightarrow> Max (insert 0 (set (scroll_depths evs))) < d)
          \<and> myEvents (step P (Dom (ScrollEv d p)) s st1) =
              (if Max (insert 0 (set (scroll_depths evs))) < d
               then add (the (fst (onScroll d p s (maxScroll st1)))) (myEvents st1)
               else myEvents st1)))
   \<and> (tracking st' \<longrightarrow>
      (let st2 = setTracking True pathname2 search2 s2 (setTracking False pathname1 search1 s1 st')
       in tracking st2 \<and> maxScroll st2 = 0
          \<and> (0 < d \<longrightarrow> fst (onScroll d p s (maxScroll st2)) \<noteq> None)))"
proof (intro conjI impI)
  assume off: "\<not> tracking st"
  let ?st0 = "setTracking True pathname search s0 st"
  let ?st1 = "run P evs ?st0"
  have t0: "tracking ?st0" by (simp add: tracking_setTracking)
  have m0: "maxScroll ?st0 = 0" using off by (rule maxScroll_setTracking_on)
  have m1: "maxScroll ?st1 = Max (insert 0 (set (scroll_depths evs)))"
    using maxScroll_run [OF t0, of P evs] m0 by simp
  have t1: "tracking ?st1" using t0 by (simp add: tracking_run)
  have e: "myEvents (step P (Dom (ScrollEv d p)) s ?st1) =
              (if Max (insert 0 (set (scroll_depths evs))) < d
               then add (the (fst (onScroll d p s (maxScroll ?st1)))) (myEvents ?st1)
               else myEvents ?st1)"
    using t1 m1 by (simp add: onScroll_def)
  show "let st1 = ?st1
       in maxScroll st1 = Max (insert 0 (set (scroll_depths evs)))
          \<and> (fst (onScroll d p s (maxScroll st1)) \<noteq> None
               \<longleftrightarrow> Max (insert 0 (set (scroll_depths evs))) < d)
          \<and> myEvents (step P (Dom (ScrollEv d p)) s st1) =
              (if Max (insert 0 (set (scroll_depths evs))) < d
               then add (the (fst (onScroll d p s (maxScroll st1)))) (myEvents st1)
               else myEvents st1)"
    unfolding Let_def onScroll_emits using m1 e by (intro conjI) (simp_all only:)
next
  assume on: "tracking st'"
  let ?off = "setTracking False pathname1 search1 s1 st'"
  let ?st2 = "setTracking True pathname2 search2 s2 ?off"
  have "\<not> tracking ?off" by (simp add: tracking_setTracking)
  then have "maxScroll ?st2 = 0" by (rule maxScroll_setTracking_on)
  then show "let st2 = ?st2
       in tracking st2 \<and> maxScroll st2 = 0
          \<and> (0 < d \<longrightarrow> fst (onScroll d p s (maxScroll st2)) \<noteq> None)"
    unfolding Let_def onScroll_emits by (simp add: tracking_setTracking)
qed

text \<open>
  At a sample: a session sees the depths 30, 20 and 80, with a copy and a change of route
  in between; the depths 30 and 80 are recorded. After
  capture is switched off and on, the depth 50 is recorded although the session before had
  reached 80.
\<close>

theorem scroll_watermark_witness:
  "maxScroll
     (run ref_platform
        [(Dom (ScrollEv 30 ''/''), sample_stamp), (Dom CopyEv, sample_stamp),
         (Navigate ''/about'' None, sample_stamp),
         (Dom (ScrollEv 20 ''/about''), sample_stamp),
         (Dom (ScrollEv 80 ''/about''), sample_stamp)]
        (setTracking True ''/'' None sample_stamp initial_page)) = 80
   \<and> map m_type
       (myEvents
          (run ref_platform
             [(Dom (ScrollEv 30 ''/''), sample_stamp), (Dom CopyEv, sample_stamp),
              (Navigate ''/about'' None, sample_stamp),
              (Dom (ScrollEv 20 ''/about''), sample_stamp),
              (Dom (ScrollEv 80 ''/about''), sample_stamp)]
             (setTracking True ''/'' None sample_stamp initial_page)))
       = [Scroll, RouteChange, Copy, Scroll]
   \<and> maxScroll scrolled_page = 80
   \<and> fst (onScroll 50 ''/'' sample_stamp (maxScroll scrolled_page)) = None
   \<and> fst (onScroll 50 ''/'' sample_stamp
            (maxScroll (setTracking True ''/'' None sample_stamp
                          (setTracking False ''/'' None sample_stamp scrolled_page)))) \<noteq> None"
proof -
  let ?evs = "[(Dom (ScrollEv 30 ''/''), sample_stamp), (Dom CopyEv, sample_stamp),
         (Navigate ''/about'' None, sample_stamp),
         (Dom (ScrollEv 20 ''/about''), sample_stamp),
         (Dom (ScrollEv 80 ''/about''), sample_stamp)]"
  have a: "\<not> tracking initial_page" by (simp add: initial_page_def)
  have b: "tracking scrolled_page" by (simp add: scrolled_page_def initial_page_def)
  note t = scroll_watermark
    [of initial_page ref_platform ?evs "''/''" None sample_stamp 50 "''/''" sample_stamp scrolled_page
        "''/''" None sample_stamp "''/''" None sample_stamp, unfolded Let_def]
  from t a have "maxScroll (run ref_platform ?evs (setTracking True ''/'' None sample_stamp initial_page))
                   = Max (insert 0 (set (scroll_depths ?evs)))"
    by blast
  also have "\<dots> = 80" by simp
  finally have 1: "maxScroll (run ref_platform ?evs (setTracking True ''/'' None sample_stamp initial_page)) = 80" .
  have "(0::int) < 50" by simp
  with t b have 2: "fst (onScroll 50 ''/'' sample_stamp
            (maxScroll (setTracking True ''/'' None sample_stamp
                          (setTracking False ''/'' None sample_stamp scrolled_page)))) \<noteq> None"
    by blast
  have 3: "map m_type (myEvents (run ref_platform ?evs (setTracking True ''/'' None sample_stamp initial_page)))
       = [Scroll, RouteChange, Copy, Scroll]"
    by (simp add: run_def navigate_def setTracking_def route_effect_def tracking_effect_def
          initial_page_def onScroll_def onCopy_def route_change_def full_route_def add_def)
  have 4: "maxScroll scrolled_page = 80" "fst (onScroll 50 ''/'' sample_stamp (maxScroll scrolled_page)) = None"
    by (simp_all add: scrolled_page_def initial_page_def onScroll_def)
  from 1 2 3 4 show ?thesis by blast
qed

subsection \<open>Export and import\<close>












































lemma those_map_Some: "those (map (\<lambda>x. Some (g x)) xs) = Some (map g xs)"
  by (induction xs) simp_all







lemma array_index_letter:
  "\<not> (48 \<le> (of_char c :: nat) \<and> (of_char c :: nat) \<le> 57) \<Longrightarrow> array_index (c # cs) = None"
  by (auto simp: array_index_def Let_def)






text \<open>
  The codec at work: the text that the export writes for a list of one event, and the
  import of a text that another program wrote, with its own spacing and order of keys.
\<close>

lemma ecma_stringify_noted:
  \<open>ecma_stringify [noted_event]
   = text_lines
       [''['',
        ''  {'',
        ''    "id": "id-1",'',
        ''    "type": "copy",'',
        ''    "label": "c",'',
        ''    "created_at": "t",'',
        ''    "meta": {'',
        ''      "n": -12,'',
        ''      "s": "x"'',
        ''    },'',
        ''    "icon": "copy"'',
        ''  }'',
        '']'']\<close>
  by (simp add: ecma_stringify_def events_json_def event_json_def noted_event_def quote_def nl_def
      escape_char_def Let_def string_of_int_def string_of_nat.simps digit_char_def)

lemma ecma_parse_noted:
  \<open>ecma_parse ''[ {"type":"copy", "id":"id-1", "label":"c","created_at":"t","icon":"copy", "meta": {"n": -12, "s": "x"}} ]''
   = Some [noted_event]\<close>
  by (simp add: ecma_parse_def JSON_parse_text_def skip_ws_def is_ws_def parse_number_def Let_def
      is_digit_def digits_value_def assign_all_def own_assign_def property_order_def
      array_index_def type_of_name_def noted_event_def)

lemma ecma_parse_broken: \<open>ecma_parse ''[ {"type":"copy", '' = None\<close>
  by (simp add: ecma_parse_def JSON_parse_text_def skip_ws_def is_ws_def)

lemma ecma_empty: "ecma_stringify [] = ''[]'' \<and> ecma_parse ''[]'' = Some []"
  by (simp add: ecma_stringify_def events_json_def ecma_parse_def JSON_parse_text_def skip_ws_def
      is_ws_def)

text \<open>The handlers and the route effect keep the list within the lists of the theorem.\<close>

lemma json_safe_events_Cons:
  "json_safe_events (e # xs)
     = ((case m_meta e of None \<Rightarrow> True | Some mm \<Rightarrow> json_safe_meta mm) \<and> json_safe_events xs)"
  by (simp add: json_safe_events_def)

lemma json_safe_events_take: "json_safe_events xs \<Longrightarrow> json_safe_events (take n xs)"
  by (auto simp: json_safe_events_def list_all_iff dest: in_set_takeD)

lemma json_safe_add:
  "json_safe_events xs \<Longrightarrow> json_safe_events [e] \<Longrightarrow> json_safe_events (add e xs)"
  unfolding add_def by (rule json_safe_events_take) (simp add: json_safe_events_Cons)

lemma array_index_keys:
  "array_index ''x'' = None" "array_index ''y'' = None" "array_index ''tag'' = None"
  "array_index ''path'' = None" "array_index ''key'' = None" "array_index ''depth'' = None"
  "array_index ''state'' = None" "array_index ''from'' = None" "array_index ''to'' = None"
  by (simp_all add: array_index_letter)

lemma handler_events_safe:
  "json_safe_value (MNum x) \<Longrightarrow> json_safe_value (MNum y) \<Longrightarrow> json_safe_events [onClick target x y path s]"
  "json_safe_events [onKey key path s]"
  "json_safe_events [onVis state s]"
  "json_safe_events [onCopy s]"
  "json_safe_events [heartbeat path s]"
  "json_safe_events [route_change prev full s]"
  by (simp_all add: json_safe_events_def json_safe_meta_def onClick_def onKey_def onVis_def
      onCopy_def heartbeat_def route_change_def array_index_keys Let_def split: option.splits)

lemma onScroll_safe:
  assumes "\<bar>depth\<bar> \<le> 2 ^ 53" "onScroll depth path s m0 = (Some e, m)"
  shows "json_safe_events [e]"
proof -
  have "\<bar>(of_int depth :: rat)\<bar> \<le> 2 ^ 53"
    using assms(1) by (metis of_int_abs of_int_le_iff of_int_numeral of_int_power)
  then show ?thesis
    using assms(2)
    by (auto simp: onScroll_def json_safe_events_def json_safe_meta_def array_index_keys
        split: if_splits)
qed

lemma handle_json_safe:
  assumes "safe_dom ev" "json_safe_events (myEvents st)"
  shows "json_safe_events (myEvents (handle ev s st))"
proof (cases ev)
  case (ScrollEv depth path)
  show ?thesis
  proof (cases "onScroll depth path s (maxScroll st)")
    case (Pair oe m)
    then show ?thesis
      using assms ScrollEv onScroll_safe [of depth path s "maxScroll st" _ m]
      by (cases oe) (simp_all add: json_safe_add)
  qed
qed (use assms in \<open>simp_all add: json_safe_add handler_events_safe\<close>)

lemma navigate_json_safe:
  "json_safe_events (myEvents st) \<Longrightarrow> json_safe_events (myEvents (navigate pathname search s st))"
  using handler_events_safe(6) [of "prevRoute st" "full_route pathname search" s]
  by (simp add: navigate_def route_effect_def json_safe_events_Cons)

lemma step_json_safe:
  assumes "safe_action P a" "json_safe_events (myEvents st)"
  shows "json_safe_events (myEvents (step P a s st))"
proof (cases a)
  case (Dom ev)
  then show ?thesis using assms by (simp add: handle_json_safe)
next
  case (Navigate pathname search)
  then show ?thesis using assms by (simp add: navigate_json_safe)
next
  case (Import f)
  then show ?thesis
    using assms by (cases f) (auto simp: onImport_def split: option.splits)
next
  case Clear
  then show ?thesis by (simp add: clearLocal_def json_safe_events_def)
qed

lemma run_json_safe:
  "list_all (\<lambda>p. safe_action P (fst p)) as \<Longrightarrow> json_safe_events (myEvents st)
     \<Longrightarrow> json_safe_events (myEvents (run P as st))"
proof (induction as arbitrary: st)
  case Nil
  from Nil.prems(2) show ?case unfolding run_Nil .
next
  case (Cons p as)
  obtain a s where p: "p = (a, s)" by (cases p)
  have "json_safe_events (myEvents (step P a s st))"
    using Cons.prems p by (intro step_json_safe) simp_all
  then have "json_safe_events (myEvents (run P as (step P a s st)))"
    using Cons.prems by (intro Cons.IH) simp_all
  then show ?case unfolding p run_Cons .
qed

lemma onImport_parse_error:
  "JSON_parse P t = None \<Longrightarrow> onImport P (Some t) st = (st, Some txt_import_failed)"
  by (simp add: onImport_def)

lemma onImport_keeps_rest:
  "JSON_parse P t = Some xs \<Longrightarrow> onImport P (Some t) st = (st \<lparr> myEvents := xs \<rparr>, None)"
  by (simp add: onImport_def)



end
